theory Spec2Isabelle
  imports Main
begin

section \<open>Python string operations\<close>

text \<open>
  The migration script \<^verbatim>\<open>scripts/migrate_normalizers.py\<close> works on one Python
  \<^verbatim>\<open>str\<close> per file. A text is modelled as a \<^typ>\<open>string\<close>; each \<^typ>\<open>char\<close>
  stands for one code point below 256, so offsets and lengths count code points as
  Python does. Offsets are natural numbers; the value \<^verbatim>\<open>-1\<close> of \<^verbatim>\<open>str.find\<close> and the
  \<^verbatim>\<open>None\<close> of a failed regular-expression search are \<^term>\<open>None\<close>.
\<close>

text \<open>\<^verbatim>\<open>strip_prefix p s\<close>: the rest of \<^verbatim>\<open>s\<close> after its prefix \<^verbatim>\<open>p\<close>, if it starts with it.\<close>

fun strip_prefix :: "string \<Rightarrow> string \<Rightarrow> string option" where
  "strip_prefix [] s = Some s"
| "strip_prefix (p # ps) [] = None"
| "strip_prefix (p # ps) (c # cs) = (if p = c then strip_prefix ps cs else None)"

definition startswith :: "string \<Rightarrow> string \<Rightarrow> bool" where
  "startswith s p = (strip_prefix p s \<noteq> None)"

text \<open>\<^verbatim>\<open>sub in s\<close>.\<close>

fun str_in :: "string \<Rightarrow> string \<Rightarrow> bool" where
  "str_in sub [] = (sub = [])"
| "str_in sub (c # cs) = (startswith (c # cs) sub \<or> str_in sub cs)"

text \<open>\<^verbatim>\<open>s.find(sub)\<close>, counting from offset \<^verbatim>\<open>off\<close>.\<close>

fun find_from :: "nat \<Rightarrow> string \<Rightarrow> string \<Rightarrow> nat option" where
  "find_from off [] sub = (if sub = [] then Some off else None)"
| "find_from off (c # cs) sub =
     (if startswith (c # cs) sub then Some off else find_from (Suc off) cs sub)"

definition str_find :: "string \<Rightarrow> string \<Rightarrow> nat option" where
  "str_find s sub = find_from 0 s sub"

text \<open>\<^verbatim>\<open>s[i:j]\<close> for offsets that are not negative.\<close>

definition slice :: "string \<Rightarrow> nat \<Rightarrow> nat \<Rightarrow> string" where
  "slice s i j = take (j - i) (drop i s)"

text \<open>\<^verbatim>\<open>s.replace(old, new)\<close>: every occurrence, left to right, without overlap.\<close>

function str_replace :: "string \<Rightarrow> string \<Rightarrow> string \<Rightarrow> string" where
  "str_replace [] old new = (if old = [] then new else [])"
| "str_replace (c # cs) old new =
     (if old = [] then new @ c # str_replace cs old new
      else case strip_prefix old (c # cs) of
             Some rest \<Rightarrow> new @ str_replace rest old new
           | None \<Rightarrow> c # str_replace cs old new)"
  by pat_completeness auto
termination
proof (relation "measure (\<lambda>(s, old, new). length s)")
  fix c :: char and cs old new :: string and rest
  assume old: "old \<noteq> []" and strip: "strip_prefix old (c # cs) = Some rest"
  have "length s = length p + length r" if "strip_prefix p s = Some r" for p s r
    using that by (induction p s rule: strip_prefix.induct) (auto split: if_splits)
  from this [OF strip] old have "length rest < length (c # cs)"
    by (cases old) auto
  then show "((rest, old, new), (c # cs, old, new)) \<in> measure (\<lambda>(s, old, new). length s)"
    by simp
qed auto

text \<open>\<^verbatim>\<open>s.replace(old, new, 1)\<close>: the first occurrence only.\<close>

fun str_replace1 :: "string \<Rightarrow> string \<Rightarrow> string \<Rightarrow> string" where
  "str_replace1 [] old new = (if old = [] then new else [])"
| "str_replace1 (c # cs) old new =
     (case strip_prefix old (c # cs) of
        Some rest \<Rightarrow> new @ rest
      | None \<Rightarrow> c # str_replace1 cs old new)"

section \<open>The regular expressions of the script\<close>

text \<open>
  The patterns of the script are sequences of literals and greedy repetitions of one
  character class (\<^verbatim>\<open>\s*\<close>, \<^verbatim>\<open>\s+\<close>, \<^verbatim>\<open>\w+\<close>, \<^verbatim>\<open>[^"]+\<close>). The matcher is the
  backtracking one of Python's \<^verbatim>\<open>re\<close>: a repetition takes the longest run first and
  gives characters back one at a time until the rest of the pattern matches. The classes
  are those of a \<^verbatim>\<open>str\<close> pattern, on the code points below 256.
\<close>

datatype cls = Space | Word | NotQuote

fun in_cls :: "cls \<Rightarrow> char \<Rightarrow> bool" where
  "in_cls Space c =
     (let n = (of_char c :: nat) in
      (9 \<le> n \<and> n \<le> 13) \<or> (28 \<le> n \<and> n \<le> 32) \<or> n = 133 \<or> n = 160)"
| "in_cls Word c =
     (let n = (of_char c :: nat) in
      (48 \<le> n \<and> n \<le> 57) \<or> (65 \<le> n \<and> n \<le> 90) \<or> n = 95 \<or> (97 \<le> n \<and> n \<le> 122) \<or>
      n = 170 \<or> (178 \<le> n \<and> n \<le> 179) \<or> n = 181 \<or> (185 \<le> n \<and> n \<le> 186) \<or>
      (188 \<le> n \<and> n \<le> 190) \<or> (192 \<le> n \<and> n \<le> 214) \<or> (216 \<le> n \<and> n \<le> 246) \<or>
      248 \<le> n)"
| "in_cls NotQuote c = (c \<noteq> CHR 0x22)"

datatype item = Lit string | Many cls nat

text \<open>
  \<^verbatim>\<open>try_down f n mn\<close>: the repetition has \<^verbatim>\<open>n\<close> characters available and needs at
  least \<^verbatim>\<open>mn\<close>; \<^verbatim>\<open>f k\<close> matches the rest of the pattern after \<^verbatim>\<open>k\<close> of them.
\<close>

primrec try_down :: "(nat \<Rightarrow> nat list option) \<Rightarrow> nat \<Rightarrow> nat \<Rightarrow> nat list option" where
  "try_down f 0 mn = (if 0 < mn then None else map_option (Cons 0) (f 0))"
| "try_down f (Suc n) mn =
     (if Suc n < mn then None
      else case f (Suc n) of
             Some ls \<Rightarrow> Some (Suc n # ls)
           | None \<Rightarrow> try_down f n mn)"

text \<open>
  \<^verbatim>\<open>re_match pat s\<close>: \<^verbatim>\<open>re.match\<close>, anchored at the start of \<^verbatim>\<open>s\<close>. The result lists
  how many characters each item of the pattern took.
\<close>

primrec re_match :: "item list \<Rightarrow> string \<Rightarrow> nat list option" where
  "re_match [] = (\<lambda>s. Some [])"
| "re_match (it # its) = (\<lambda>s.
     case it of
       Lit l \<Rightarrow> (case strip_prefix l s of
                   Some rest \<Rightarrow> map_option (Cons (length l)) (re_match its rest)
                 | None \<Rightarrow> None)
     | Many c mn \<Rightarrow>
         try_down (\<lambda>k. re_match its (drop k s)) (length (takeWhile (in_cls c) s)) mn)"

text \<open>A match object: its start offset and the lengths taken by the items.\<close>

type_synonym rmatch = "nat \<times> nat list"

definition m_start :: "rmatch \<Rightarrow> nat" where
  "m_start m = fst m"

definition m_end :: "rmatch \<Rightarrow> nat" where
  "m_end m = fst m + sum_list (snd m)"

text \<open>The text that items \<^verbatim>\<open>i\<close> up to \<^verbatim>\<open>j\<close> (exclusive) matched: a group.\<close>

definition m_group :: "string \<Rightarrow> rmatch \<Rightarrow> nat \<Rightarrow> nat \<Rightarrow> string" where
  "m_group s m i j =
     take (sum_list (take (j - i) (drop i (snd m)))) (drop (fst m + sum_list (take i (snd m))) s)"

text \<open>\<^verbatim>\<open>re.search\<close>: the leftmost offset at which the pattern matches.\<close>

fun re_search_from :: "item list \<Rightarrow> nat \<Rightarrow> string \<Rightarrow> rmatch option" where
  "re_search_from pat off [] = map_option (Pair off) (re_match pat [])"
| "re_search_from pat off (c # cs) =
     (case re_match pat (c # cs) of
        Some ls \<Rightarrow> Some (off, ls)
      | None \<Rightarrow> re_search_from pat (Suc off) cs)"

definition re_search :: "item list \<Rightarrow> string \<Rightarrow> rmatch option" where
  "re_search pat s = re_search_from pat 0 s"

text \<open>
  \<^verbatim>\<open>re.finditer\<close>: the matches from left to right, without overlap. \<^verbatim>\<open>skip\<close> counts
  the characters still covered by the previous match. Every pattern of the script holds a
  literal that is not empty, so no match is empty.
\<close>

fun re_finditer_from :: "item list \<Rightarrow> nat \<Rightarrow> nat \<Rightarrow> string \<Rightarrow> rmatch list" where
  "re_finditer_from pat skip off [] = []"
| "re_finditer_from pat skip off (c # cs) =
     (if 0 < skip then re_finditer_from pat (skip - 1) (Suc off) cs
      else case re_match pat (c # cs) of
             Some ls \<Rightarrow> (off, ls) # re_finditer_from pat (sum_list ls - 1) (Suc off) cs
           | None \<Rightarrow> re_finditer_from pat 0 (Suc off) cs)"

definition re_finditer :: "item list \<Rightarrow> string \<Rightarrow> rmatch list" where
  "re_finditer pat s = re_finditer_from pat 0 0 s"

text \<open>\<^verbatim>\<open>re.sub(pat, repl, s)\<close> for a replacement text without group references.\<close>

fun re_sub_from :: "item list \<Rightarrow> string \<Rightarrow> nat \<Rightarrow> string \<Rightarrow> string" where
  "re_sub_from pat repl skip [] = []"
| "re_sub_from pat repl skip (c # cs) =
     (if 0 < skip then re_sub_from pat repl (skip - 1) cs
      else case re_match pat (c # cs) of
             Some ls \<Rightarrow> repl @ re_sub_from pat repl (sum_list ls - 1) cs
           | None \<Rightarrow> c # re_sub_from pat repl 0 cs)"

definition re_sub :: "item list \<Rightarrow> string \<Rightarrow> string \<Rightarrow> string" where
  "re_sub pat repl s = re_sub_from pat repl 0 s"

section \<open>The migration of one file\<close>

subsection \<open>Step 1: the \<^verbatim>\<open>async_trait\<close> import\<close>

definition add_async_trait_import :: "string \<Rightarrow> string" where
  \<open>add_async_trait_import content =
     (if \<not> str_in ''use async_trait::async_trait;'' content then
        if str_in ''use anyhow::Result;'' content then
          str_replace content ''use anyhow::Result;''
            ''use anyhow::Result;\<newline>use async_trait::async_trait;''
        else if str_in ''use chrono::{DateTime, Utc};'' content then
          str_replace content ''use chrono::{DateTime, Utc};''
            ''use async_trait::async_trait;\<newline>use chrono::{DateTime, Utc};''
        else content
      else content)\<close>

subsection \<open>Step 2: the patterns\<close>

text \<open>\<^verbatim>\<open>impl ResourceNormalizer for (\w+Normalizer) \{\<close>; group 1 is items 1 and 2.\<close>

definition impl_pattern :: "item list" where
  \<open>impl_pattern =
     [Lit ''impl ResourceNormalizer for '', Many Word 1, Lit ''Normalizer'', Lit '' {'']\<close>

definition normalize_pattern :: "item list" where
  \<open>normalize_pattern =
     [Lit ''fn normalize('', Many Space 0,
      Lit ''&self,'', Many Space 0,
      Lit ''raw_response: serde_json::Value,'', Many Space 0,
      Lit ''account: &str,'', Many Space 0,
      Lit ''region: &str,'', Many Space 0,
      Lit ''query_timestamp: DateTime<Utc>,'', Many Space 0,
      Lit '') -> Result<ResourceEntry> {'']\<close>

text \<open>\<^verbatim>\<open>(\s+)let tags = extract_tags\(&raw_response\);\<close>; group 1 is item 0.\<close>

definition tags_pattern :: "item list" where
  \<open>tags_pattern = [Many Space 1, Lit ''let tags = extract_tags(&raw_response);'']\<close>

text \<open>\<^verbatim>\<open>let (\w+) = raw_response\<close>; group 1 is item 1.\<close>

definition resource_id_pattern :: "item list" where
  \<open>resource_id_pattern = [Lit ''let '', Many Word 1, Lit '' = raw_response'']\<close>

text \<open>\<^verbatim>\<open>fn resource_type\(&self\) -> &\'static str \{\s*"([^"]+)"\<close>; group 1 is item 3.\<close>

definition resource_type_pattern :: "item list" where
  \<open>resource_type_pattern =
     [Lit ''fn resource_type(&self) -> &'static str {'', Many Space 0,
      Lit ''"'', Many NotQuote 1, Lit ''"'']\<close>

text \<open>The pattern of the \<^verbatim>\<open>re.sub\<close> that makes the signature asynchronous.\<close>

definition normalize_sig_pattern :: "item list" where
  \<open>normalize_sig_pattern =
     [Lit ''fn normalize('', Many Space 0,
      Lit ''&self,'', Many Space 0,
      Lit ''raw_response: serde_json::Value,'', Many Space 0,
      Lit ''account: &str,'', Many Space 0,
      Lit ''region: &str,'', Many Space 0,
      Lit ''query_timestamp: DateTime<Utc>,'', Many Space 0,
      Lit '')'']\<close>

definition async_sig :: string where
  \<open>async_sig =
     ''async fn normalize(\<newline>        &self,\<newline>        raw_response: serde_json::Value,\<newline>        account: &str,\<newline>        region: &str,\<newline>        query_timestamp: DateTime<Utc>,\<newline>        aws_client: &AWSResourceClient,\<newline>    )''\<close>

subsection \<open>The generated texts\<close>

definition async_tags_code :: "string \<Rightarrow> string \<Rightarrow> string \<Rightarrow> string" where
  \<open>async_tags_code indent resource_type resource_id_var =
     indent @ ''// Fetch tags asynchronously from AWS API with caching\<newline>'' @
     indent @ ''let tags = aws_client\<newline>'' @
     indent @ ''    .fetch_tags_for_resource("'' @ resource_type @ ''", &'' @ resource_id_var @
       '', account, region)\<newline>'' @
     indent @ ''    .await\<newline>'' @
     indent @ ''    .unwrap_or_else(|e| {\<newline>'' @
     indent @ ''        tracing::warn!("Failed to fetch tags for '' @ resource_type @
       '' {}: {}", '' @ resource_id_var @ '', e);\<newline>'' @
     indent @ ''        Vec::new()\<newline>'' @
     indent @ ''    });''\<close>

definition sync_impl_comment :: string where
  \<open>sync_impl_comment =
     ''// Temporary: Keep old sync implementation for compatibility during migration\<newline>'' @
     ''// This will be removed once all normalizers are migrated and query_resources is updated\<newline>'' @
     ''#[allow(deprecated)]\<newline>''\<close>

definition fallback_stmt :: "string \<Rightarrow> string" where
  \<open>fallback_stmt indent =
     indent @ ''let tags = extract_tags(&raw_response); // Fallback to local extraction for sync path''\<close>

definition impl_header :: "string \<Rightarrow> string" where
  \<open>impl_header normalizer_name = ''impl ResourceNormalizer for '' @ normalizer_name\<close>

definition async_header :: "string \<Rightarrow> string" where
  \<open>async_header normalizer_name =
     ''#[async_trait]\<newline>impl AsyncResourceNormalizer for '' @ normalizer_name\<close>

subsection \<open>The scan for the closing brace\<close>

text \<open>
  The loop over \<^verbatim>\<open>enumerate(content[impl_insertion_point:])\<close>; \<^verbatim>\<open>i\<close> is the index of the
  next character. The result is \<^verbatim>\<open>i + 1\<close> at the \<^verbatim>\<open>break\<close>, and \<^term>\<open>None\<close> when the
  loop ends without it (\<^verbatim>\<open>impl_end\<close> is then still \<^verbatim>\<open>impl_insertion_point\<close>).
\<close>

fun find_impl_end :: "nat \<Rightarrow> int \<Rightarrow> bool \<Rightarrow> string \<Rightarrow> nat option" where
  \<open>find_impl_end i brace_count found_start [] = None\<close>
| \<open>find_impl_end i brace_count found_start (char # rest) =
     (if char = CHR ''{'' then find_impl_end (Suc i) (brace_count + 1) True rest
      else if char = CHR ''}'' then
        (if found_start \<and> brace_count - 1 = 0 then Some (Suc i)
         else find_impl_end (Suc i) (brace_count - 1) found_start rest)
      else find_impl_end (Suc i) brace_count found_start rest)\<close>

subsection \<open>One located implementation\<close>

text \<open>
  How the body of the loop over the matches ends: at one of its \<^verbatim>\<open>continue\<close>
  statements, each after a message, or at the end of the body with the block migrated.
\<close>

datatype outcome =
    NoNormalize | NoTags | NoResourceId | NoResourceType | LostTrack | NoEnd | Migrated

text \<open>A located implementation: \<^verbatim>\<open>match.start()\<close> and \<^verbatim>\<open>match.group(1)\<close>.\<close>

type_synonym located = "nat \<times> string"

definition impl_matches :: "string \<Rightarrow> located list" where
  "impl_matches content =
     map (\<lambda>m. (m_start m, m_group content m 1 3)) (re_finditer impl_pattern content)"

text \<open>The splice of the whole implementation, lines 154 to 185 of the script.\<close>

definition modified_impl :: "string \<Rightarrow> string \<Rightarrow> string \<Rightarrow> string \<Rightarrow> string" where
  \<open>modified_impl normalizer_name indent tags_code original_impl =
     (let async_impl =
            re_sub normalize_sig_pattern async_sig
              (str_replace1 original_impl (impl_header normalizer_name)
                 (async_header normalizer_name))
      in async_impl @ ''\<newline>\<newline>'' @ sync_impl_comment @
         str_replace original_impl tags_code (fallback_stmt indent))\<close>

definition process_match :: "string \<Rightarrow> located \<Rightarrow> string \<times> outcome" where
  "process_match content m =
     (let start_pos = fst m; normalizer_name = snd m;
          impl_section = slice content start_pos (start_pos + 5000)
      in case re_search normalize_pattern impl_section of
           None \<Rightarrow> (content, NoNormalize)
         | Some normalize_match \<Rightarrow>
      (case re_search tags_pattern impl_section of
           None \<Rightarrow> (content, NoTags)
         | Some tags_match \<Rightarrow>
      (let indent = m_group impl_section tags_match 0 1;
           tags_line_start = start_pos + m_start tags_match;
           tags_line_end = start_pos + m_end tags_match;
           id_section = slice content start_pos tags_line_start
       in case re_finditer resource_id_pattern id_section of
            [] \<Rightarrow> (content, NoResourceId)
          | id_match # _ \<Rightarrow>
      (let resource_id_var = m_group id_section id_match 1 2
       in case re_search resource_type_pattern impl_section of
            None \<Rightarrow> (content, NoResourceType)
          | Some type_match \<Rightarrow>
      (let resource_type = m_group impl_section type_match 3 4;
           tags_code = async_tags_code indent resource_type resource_id_var;
           content1 = take tags_line_start content @ tags_code @ drop tags_line_end content
       in case str_find content1 (impl_header normalizer_name) of
            None \<Rightarrow> (content1, LostTrack)
          | Some impl_insertion_point \<Rightarrow>
      (case find_impl_end 0 0 False (drop impl_insertion_point content1) of
            None \<Rightarrow> (content1, NoEnd)
          | Some n \<Rightarrow>
      (let impl_end = impl_insertion_point + n;
           original_impl = slice content1 impl_insertion_point impl_end
       in (take impl_insertion_point content1 @
             modified_impl normalizer_name indent tags_code original_impl @
             drop impl_end content1,
           Migrated))))))))"

subsection \<open>The messages\<close>

text \<open>One constructor for each \<^verbatim>\<open>print\<close> of the script, with the values it formats.\<close>

datatype msg =
    Processing string
  | NoImplsFound
  | FoundN nat
  | WarnNoNormalize string
  | WarnNoTags string
  | WarnNoResourceId string
  | WarnNoResourceType string
  | ErrLostTrack string
  | ErrNoEnd string
  | MigratedN nat
  | NoChangesNeeded
  | ErrFileNotFound string
  | Usage
  | SummaryN nat

fun outcome_msgs :: "string \<Rightarrow> outcome \<Rightarrow> msg list" where
  "outcome_msgs name NoNormalize = [WarnNoNormalize name]"
| "outcome_msgs name NoTags = [WarnNoTags name]"
| "outcome_msgs name NoResourceId = [WarnNoResourceId name]"
| "outcome_msgs name NoResourceType = [WarnNoResourceType name]"
| "outcome_msgs name LostTrack = [ErrLostTrack name]"
| "outcome_msgs name NoEnd = [ErrNoEnd name]"
| "outcome_msgs name Migrated = []"

subsection \<open>The loop over the matches and the write\<close>

text \<open>
  \<^verbatim>\<open>for match in reversed(matches)\<close>: the buffer after the loop, the outcome of each
  match in the order of processing, and the messages.
\<close>

fun process_all :: "string \<Rightarrow> located list \<Rightarrow> string \<times> outcome list \<times> msg list" where
  "process_all content [] = (content, [], [])"
| "process_all content (m # ms) =
     (case process_match content m of (content1, oc) \<Rightarrow>
      (case process_all content1 ms of (content2, ocs, out) \<Rightarrow>
        (content2, oc # ocs, outcome_msgs (snd m) oc @ out)))"

record file_result =
  returned :: bool
  written :: "string option"
  printed :: "msg list"

text \<open>
  \<^verbatim>\<open>migrate_normalizer_file\<close> on a file whose text is \<^verbatim>\<open>original_content\<close>:
  \<^term>\<open>written\<close> is the argument of \<^verbatim>\<open>write_text\<close>, if it is called.
\<close>

definition migrate_normalizer_file :: "string \<Rightarrow> string \<Rightarrow> file_result" where
  "migrate_normalizer_file file_path original_content =
     (let content = add_async_trait_import original_content;
          matches = impl_matches content
      in if matches = [] then
           \<lparr>returned = False, written = None,
            printed = [Processing file_path, NoImplsFound]\<rparr>
         else
           (case process_all content (rev matches) of (content1, ocs, out) \<Rightarrow>
              if content1 \<noteq> original_content then
                \<lparr>returned = True, written = Some content1,
                 printed = [Processing file_path, FoundN (length matches)] @ out @
                           [MigratedN (length matches)]\<rparr>
              else
                \<lparr>returned = False, written = None,
                 printed = [Processing file_path, FoundN (length matches)] @ out @
                           [NoChangesNeeded]\<rparr>))"


section \<open>The command line\<close>

text \<open>
  What is at a path that exists: a text file that the script may read and write, a text
  file that it may only read, or something that \<^verbatim>\<open>read_text\<close> cannot read (a directory, a
  file without read permission, bytes that do not decode). A path that does not exist has
  no entry. \<^verbatim>\<open>argv\<close> is \<^verbatim>\<open>sys.argv\<close>, the name of the script first.
\<close>

datatype entry = TextFile string | ReadOnlyFile string | NoText

type_synonym filesystem = "string \<rightharpoonup> entry"

text \<open>\<^verbatim>\<open>file_path.read_text()\<close>: the text, or \<^term>\<open>None\<close> when it raises.\<close>

fun read_text :: "entry \<Rightarrow> string option" where
  "read_text (TextFile t) = Some t"
| "read_text (ReadOnlyFile t) = Some t"
| "read_text NoText = None"

text \<open>
  \<^verbatim>\<open>file_path.write_text(t)\<close>: the entry afterwards, or \<^term>\<open>None\<close> when it raises, the
  file being as before.
\<close>

fun write_text :: "entry \<Rightarrow> string \<Rightarrow> entry option" where
  "write_text (TextFile old) t = Some (TextFile t)"
| "write_text (ReadOnlyFile old) t = None"
| "write_text NoText t = None"

text \<open>
  How the loop of \<^verbatim>\<open>main\<close> ends: it runs through the list, or an exception of
  \<^verbatim>\<open>read_text\<close> or \<^verbatim>\<open>write_text\<close> leaves it. The script has no \<^verbatim>\<open>try\<close>, so the
  exception ends the process.
\<close>

datatype ending = Completed | Uncaught

text \<open>
  The loop of \<^verbatim>\<open>main\<close>: the file system, the count and the messages when it ends, and how
  it ends. \<^verbatim>\<open>read_text\<close> is called after the first message of
  \<^verbatim>\<open>migrate_normalizer_file\<close>, and \<^verbatim>\<open>write_text\<close> before its last one, the message
  of line 190; these are the messages printed when the call raises.
\<close>

fun main_loop ::
  "filesystem \<Rightarrow> string list \<Rightarrow> nat \<Rightarrow> filesystem \<times> nat \<times> msg list \<times> ending" where
  "main_loop fs [] migrated_count = (fs, migrated_count, [], Completed)"
| "main_loop fs (file_path # files) migrated_count =
     (case fs file_path of
        None \<Rightarrow>
          (case main_loop fs files migrated_count of (fs1, n, out, e) \<Rightarrow>
             (fs1, n, ErrFileNotFound file_path # out, e))
      | Some entry \<Rightarrow>
          (case read_text entry of
             None \<Rightarrow> (fs, migrated_count, [Processing file_path], Uncaught)
           | Some text \<Rightarrow>
               (let r = migrate_normalizer_file file_path text
                in case written r of
                     None \<Rightarrow>
                       (case main_loop fs files
                               (if returned r then migrated_count + 1 else migrated_count)
                        of (fs2, n, out, e) \<Rightarrow> (fs2, n, printed r @ out, e))
                   | Some t \<Rightarrow>
                       (case write_text entry t of
                          None \<Rightarrow> (fs, migrated_count, butlast (printed r), Uncaught)
                        | Some entry1 \<Rightarrow>
                            (case main_loop (fs(file_path \<mapsto> entry1)) files
                                    (if returned r then migrated_count + 1 else migrated_count)
                             of (fs2, n, out, e) \<Rightarrow> (fs2, n, printed r @ out, e))))))"

record run =
  exit_code :: nat
  stdout :: "msg list"
  files_after :: filesystem

text \<open>
  \<^verbatim>\<open>main\<close>, with the exit status of the process: 1 after \<^verbatim>\<open>sys.exit(1)\<close> and after an
  uncaught exception (whose traceback goes to the standard error, not modelled here), 0
  when \<^verbatim>\<open>main\<close> returns.
\<close>

definition main :: "filesystem \<Rightarrow> string list \<Rightarrow> run" where
  "main fs argv =
     (if length argv < 2 then \<lparr>exit_code = 1, stdout = [Usage], files_after = fs\<rparr>
      else case main_loop fs (tl argv) 0 of (fs1, migrated_count, out, e) \<Rightarrow>
        (case e of
           Completed \<Rightarrow>
             \<lparr>exit_code = 0, stdout = out @ [SummaryN migrated_count], files_after = fs1\<rparr>
         | Uncaught \<Rightarrow> \<lparr>exit_code = 1, stdout = out, files_after = fs1\<rparr>))"

text \<open>A path is usable when nothing is there or a text file that can be read and written.\<close>

definition usable :: "filesystem \<Rightarrow> string \<Rightarrow> bool" where
  "usable fs x = (case fs x of None \<Rightarrow> True | Some (TextFile t) \<Rightarrow> True | Some _ \<Rightarrow> False)"

section \<open>Notions used in the properties\<close>

text \<open>
  The value of the variable \<^verbatim>\<open>content\<close> at the end of \<^verbatim>\<open>migrate_normalizer_file\<close>, and
  how the located matches ended, in the order of processing.
\<close>

definition final_buffer :: "string \<Rightarrow> string" where
  "final_buffer original_content =
     (let content = add_async_trait_import original_content
      in fst (process_all content (rev (impl_matches content))))"

definition outcomes :: "string \<Rightarrow> outcome list" where
  "outcomes original_content =
     (let content = add_async_trait_import original_content
      in fst (snd (process_all content (rev (impl_matches content)))))"

text \<open>The skips at one of the four searches, before the first edit of the buffer.\<close>

fun early_skip :: "outcome \<Rightarrow> bool" where
  "early_skip NoNormalize = True"
| "early_skip NoTags = True"
| "early_skip NoResourceId = True"
| "early_skip NoResourceType = True"
| "early_skip LostTrack = False"
| "early_skip NoEnd = False"
| "early_skip Migrated = False"


section \<open>Example texts\<close>

text \<open>A file with one implementation that has all the parts the script looks for.\<close>

definition example_file :: string where
  \<open>example_file =
     ''impl ResourceNormalizer for FooNormalizer {\<newline>'' @
     ''fn normalize(&self, raw_response: serde_json::Value, account: &str, region: &str, query_timestamp: DateTime<Utc>, ) -> Result<ResourceEntry> {\<newline>'' @
     ''let foo_id = raw_response;\<newline>'' @
     ''let tags = extract_tags(&raw_response);\<newline>'' @
     ''}\<newline>'' @
     ''fn resource_type(&self) -> &'static str { "AWS::Foo::Bar" }\<newline>'' @
     ''}\<newline>''\<close>

text \<open>The text that the script writes for it.\<close>

definition example_migrated :: string where
  \<open>example_migrated =
     ''#[async_trait]\<newline>'' @
     ''impl AsyncResourceNormalizer for FooNormalizer {\<newline>'' @
     ''async fn normalize(\<newline>'' @
     ''        &self,\<newline>'' @
     ''        raw_response: serde_json::Value,\<newline>'' @
     ''        account: &str,\<newline>'' @
     ''        region: &str,\<newline>'' @
     ''        query_timestamp: DateTime<Utc>,\<newline>'' @
     ''        aws_client: &AWSResourceClient,\<newline>'' @
     ''    ) -> Result<ResourceEntry> {\<newline>'' @
     ''let foo_id = raw_response;\<newline>'' @
     ''// Fetch tags asynchronously from AWS API with caching\<newline>'' @
     ''\<newline>'' @
     ''let tags = aws_client\<newline>'' @
     ''\<newline>'' @
     ''    .fetch_tags_for_resource("AWS::Foo::Bar", &foo_id, account, region)\<newline>'' @
     ''\<newline>'' @
     ''    .await\<newline>'' @
     ''\<newline>'' @
     ''    .unwrap_or_else(|e| {\<newline>'' @
     ''\<newline>'' @
     ''        tracing::warn!("Failed to fetch tags for AWS::Foo::Bar {}: {}", foo_id, e);\<newline>'' @
     ''\<newline>'' @
     ''        Vec::new()\<newline>'' @
     ''\<newline>'' @
     ''    });\<newline>'' @
     ''}\<newline>'' @
     ''fn resource_type(&self) -> &'static str { "AWS::Foo::Bar" }\<newline>'' @
     ''}\<newline>'' @
     ''\<newline>'' @
     ''// Temporary: Keep old sync implementation for compatibility during migration\<newline>'' @
     ''// This will be removed once all normalizers are migrated and query_resources is updated\<newline>'' @
     ''#[allow(deprecated)]\<newline>'' @
     ''impl ResourceNormalizer for FooNormalizer {\<newline>'' @
     ''fn normalize(&self, raw_response: serde_json::Value, account: &str, region: &str, query_timestamp: DateTime<Utc>, ) -> Result<ResourceEntry> {\<newline>'' @
     ''let foo_id = raw_response;\<newline>'' @
     ''let tags = extract_tags(&raw_response); // Fallback to local extraction for sync path\<newline>'' @
     ''}\<newline>'' @
     ''fn resource_type(&self) -> &'static str { "AWS::Foo::Bar" }\<newline>'' @
     ''}\<newline>''\<close>

text \<open>The text that the script writes when it is run on that text again.\<close>

definition example_remigrated :: string where
  \<open>example_remigrated =
     ''#[async_trait]\<newline>'' @
     ''impl AsyncResourceNormalizer for FooNormalizer {\<newline>'' @
     ''async fn normalize(\<newline>'' @
     ''        &self,\<newline>'' @
     ''        raw_response: serde_json::Value,\<newline>'' @
     ''        account: &str,\<newline>'' @
     ''        region: &str,\<newline>'' @
     ''        query_timestamp: DateTime<Utc>,\<newline>'' @
     ''        aws_client: &AWSResourceClient,\<newline>'' @
     ''    ) -> Result<ResourceEntry> {\<newline>'' @
     ''let foo_id = raw_response;\<newline>'' @
     ''// Fetch tags asynchronously from AWS API with caching\<newline>'' @
     ''\<newline>'' @
     ''let tags = aws_client\<newline>'' @
     ''\<newline>'' @
     ''    .fetch_tags_for_resource("AWS::Foo::Bar", &foo_id, account, region)\<newline>'' @
     ''\<newline>'' @
     ''    .await\<newline>'' @
     ''\<newline>'' @
     ''    .unwrap_or_else(|e| {\<newline>'' @
     ''\<newline>'' @
     ''        tracing::warn!("Failed to fetch tags for AWS::Foo::Bar {}: {}", foo_id, e);\<newline>'' @
     ''\<newline>'' @
     ''        Vec::new()\<newline>'' @
     ''\<newline>'' @
     ''    });\<newline>'' @
     ''}\<newline>'' @
     ''fn resource_type(&self) -> &'static str { "AWS::Foo::Bar" }\<newline>'' @
     ''}\<newline>'' @
     ''\<newline>'' @
     ''// Temporary: Keep old sync implementation for compatibility during migration\<newline>'' @
     ''// This will be removed once all normalizers are migrated and query_resources is updated\<newline>'' @
     ''#[allow(deprecated)]\<newline>'' @
     ''#[async_trait]\<newline>'' @
     ''impl AsyncResourceNormalizer for FooNormalizer {\<newline>'' @
     ''async fn normalize(\<newline>'' @
     ''        &self,\<newline>'' @
     ''        raw_response: serde_json::Value,\<newline>'' @
     ''        account: &str,\<newline>'' @
     ''        region: &str,\<newline>'' @
     ''        query_timestamp: DateTime<Utc>,\<newline>'' @
     ''        aws_client: &AWSResourceClient,\<newline>'' @
     ''    ) -> Result<ResourceEntry> {\<newline>'' @
     ''let foo_id = raw_response;\<newline>'' @
     ''// Fetch tags asynchronously from AWS API with caching\<newline>'' @
     ''\<newline>'' @
     ''let tags = aws_client\<newline>'' @
     ''\<newline>'' @
     ''    .fetch_tags_for_resource("AWS::Foo::Bar", &foo_id, account, region)\<newline>'' @
     ''\<newline>'' @
     ''    .await\<newline>'' @
     ''\<newline>'' @
     ''    .unwrap_or_else(|e| {\<newline>'' @
     ''\<newline>'' @
     ''        tracing::warn!("Failed to fetch tags for AWS::Foo::Bar {}: {}", foo_id, e);\<newline>'' @
     ''\<newline>'' @
     ''        Vec::new()\<newline>'' @
     ''\<newline>'' @
     ''    }); // Fallback to local extraction for sync path\<newline>'' @
     ''}\<newline>'' @
     ''fn resource_type(&self) -> &'static str { "AWS::Foo::Bar" }\<newline>'' @
     ''}\<newline>'' @
     ''\<newline>'' @
     ''// Temporary: Keep old sync implementation for compatibility during migration\<newline>'' @
     ''// This will be removed once all normalizers are migrated and query_resources is updated\<newline>'' @
     ''#[allow(deprecated)]\<newline>'' @
     ''impl ResourceNormalizer for FooNormalizer {\<newline>'' @
     ''fn normalize(&self, raw_response: serde_json::Value, account: &str, region: &str, query_timestamp: DateTime<Utc>, ) -> Result<ResourceEntry> {\<newline>'' @
     ''let foo_id = raw_response;\<newline>'' @
     ''let tags = extract_tags(&raw_response); // Fallback to local extraction for sync path // Fallback to local extraction for sync path\<newline>'' @
     ''}\<newline>'' @
     ''fn resource_type(&self) -> &'static str { "AWS::Foo::Bar" }\<newline>'' @
     ''}\<newline>''\<close>

text \<open>An implementation without a \<^verbatim>\<open>normalize\<close> method, and no import to anchor on.\<close>

definition skipped_file :: string where
  \<open>skipped_file =
     ''impl ResourceNormalizer for FooNormalizer {\<newline>'' @
     ''}\<newline>''\<close>

text \<open>An import that the script anchors on, and no implementation.\<close>

definition anchor_only_file :: string where
  \<open>anchor_only_file =
     ''use anyhow::Result;\<newline>''\<close>

text \<open>The same import before an implementation without a \<^verbatim>\<open>normalize\<close> method.\<close>

definition anchor_skipped_file :: string where
  \<open>anchor_skipped_file =
     ''use anyhow::Result;\<newline>'' @
     ''impl ResourceNormalizer for FooNormalizer {\<newline>'' @
     ''}\<newline>''\<close>

text \<open>That file with the \<^verbatim>\<open>async_trait\<close> import inserted.\<close>

definition anchor_skipped_imported :: string where
  \<open>anchor_skipped_imported =
     ''use anyhow::Result;\<newline>'' @
     ''use async_trait::async_trait;\<newline>'' @
     ''impl ResourceNormalizer for FooNormalizer {\<newline>'' @
     ''}\<newline>''\<close>

text \<open>The other import that the script anchors on.\<close>

definition chrono_file :: string where
  \<open>chrono_file =
     ''use chrono::{DateTime, Utc};\<newline>''\<close>



text \<open>The example implementation without its closing brace.\<close>

definition unbalanced_file :: string where
  \<open>unbalanced_file =
     ''impl ResourceNormalizer for FooNormalizer {\<newline>'' @
     ''fn normalize(&self, raw_response: serde_json::Value, account: &str, region: &str, query_timestamp: DateTime<Utc>, ) -> Result<ResourceEntry> {\<newline>'' @
     ''let foo_id = raw_response;\<newline>'' @
     ''let tags = extract_tags(&raw_response);\<newline>'' @
     ''}\<newline>'' @
     ''fn resource_type(&self) -> &'static str { "AWS::Foo::Bar" }\<newline>''\<close>

text \<open>The buffer after the script has given up on it.\<close>

definition unbalanced_spliced :: string where
  \<open>unbalanced_spliced =
     ''impl ResourceNormalizer for FooNormalizer {\<newline>'' @
     ''fn normalize(&self, raw_response: serde_json::Value, account: &str, region: &str, query_timestamp: DateTime<Utc>, ) -> Result<ResourceEntry> {\<newline>'' @
     ''let foo_id = raw_response;\<newline>'' @
     ''// Fetch tags asynchronously from AWS API with caching\<newline>'' @
     ''\<newline>'' @
     ''let tags = aws_client\<newline>'' @
     ''\<newline>'' @
     ''    .fetch_tags_for_resource("AWS::Foo::Bar", &foo_id, account, region)\<newline>'' @
     ''\<newline>'' @
     ''    .await\<newline>'' @
     ''\<newline>'' @
     ''    .unwrap_or_else(|e| {\<newline>'' @
     ''\<newline>'' @
     ''        tracing::warn!("Failed to fetch tags for AWS::Foo::Bar {}: {}", foo_id, e);\<newline>'' @
     ''\<newline>'' @
     ''        Vec::new()\<newline>'' @
     ''\<newline>'' @
     ''    });\<newline>'' @
     ''}\<newline>'' @
     ''fn resource_type(&self) -> &'static str { "AWS::Foo::Bar" }\<newline>''\<close>

text \<open>A comment that names the second of two implementations, before both.\<close>

definition shadowed_file :: string where
  \<open>shadowed_file =
     ''// impl ResourceNormalizer for FooNormalizer\<newline>'' @
     ''impl ResourceNormalizer for BarNormalizer {\<newline>'' @
     ''}\<newline>'' @
     ''impl ResourceNormalizer for FooNormalizer {\<newline>'' @
     ''fn normalize(&self, raw_response: serde_json::Value, account: &str, region: &str, query_timestamp: DateTime<Utc>, ) -> Result<ResourceEntry> {\<newline>'' @
     ''let foo_id = raw_response;\<newline>'' @
     ''let tags = extract_tags(&raw_response);\<newline>'' @
     ''}\<newline>'' @
     ''fn resource_type(&self) -> &'static str { "AWS::Foo::Bar" }\<newline>'' @
     ''}\<newline>''\<close>

text \<open>The buffer after the script has processed the second of them.\<close>

definition shadowed_after :: string where
  \<open>shadowed_after =
     ''// #[async_trait]\<newline>'' @
     ''impl AsyncResourceNormalizer for FooNormalizer\<newline>'' @
     ''impl ResourceNormalizer for BarNormalizer {\<newline>'' @
     ''}\<newline>'' @
     ''\<newline>'' @
     ''// Temporary: Keep old sync implementation for compatibility during migration\<newline>'' @
     ''// This will be removed once all normalizers are migrated and query_resources is updated\<newline>'' @
     ''#[allow(deprecated)]\<newline>'' @
     ''impl ResourceNormalizer for FooNormalizer\<newline>'' @
     ''impl ResourceNormalizer for BarNormalizer {\<newline>'' @
     ''}\<newline>'' @
     ''impl ResourceNormalizer for FooNormalizer {\<newline>'' @
     ''fn normalize(&self, raw_response: serde_json::Value, account: &str, region: &str, query_timestamp: DateTime<Utc>, ) -> Result<ResourceEntry> {\<newline>'' @
     ''let foo_id = raw_response;\<newline>'' @
     ''// Fetch tags asynchronously from AWS API with caching\<newline>'' @
     ''\<newline>'' @
     ''let tags = aws_client\<newline>'' @
     ''\<newline>'' @
     ''    .fetch_tags_for_resource("AWS::Foo::Bar", &foo_id, account, region)\<newline>'' @
     ''\<newline>'' @
     ''    .await\<newline>'' @
     ''\<newline>'' @
     ''    .unwrap_or_else(|e| {\<newline>'' @
     ''\<newline>'' @
     ''        tracing::warn!("Failed to fetch tags for AWS::Foo::Bar {}: {}", foo_id, e);\<newline>'' @
     ''\<newline>'' @
     ''        Vec::new()\<newline>'' @
     ''\<newline>'' @
     ''    });\<newline>'' @
     ''}\<newline>'' @
     ''fn resource_type(&self) -> &'static str { "AWS::Foo::Bar" }\<newline>'' @
     ''}\<newline>''\<close>

section \<open>Properties of the string operations\<close>

lemma strip_prefix_iff: "strip_prefix p s = Some r \<longleftrightarrow> s = p @ r"
  by (induction p s rule: strip_prefix.induct) auto

lemma strip_prefix_None_iff: "strip_prefix p s = None \<longleftrightarrow> (\<forall>r. s \<noteq> p @ r)"
  by (induction p s rule: strip_prefix.induct) auto

lemma startswith_iff: "startswith s p \<longleftrightarrow> (\<exists>r. s = p @ r)"
  unfolding startswith_def using strip_prefix_iff [of p s] by (cases "strip_prefix p s") auto

lemma str_in_iff: "str_in sub s \<longleftrightarrow> (\<exists>pre post. s = pre @ sub @ post)"
proof (induction s)
  case Nil
  then show ?case by auto
next
  case (Cons c cs)
  show ?case
  proof
    assume "str_in sub (c # cs)"
    then consider "startswith (c # cs) sub" | "str_in sub cs" by auto
    then show "\<exists>pre post. c # cs = pre @ sub @ post"
    proof cases
      case 1
      then obtain r where "c # cs = sub @ r" by (auto simp: startswith_iff)
      then have "c # cs = [] @ sub @ r" by simp
      then show ?thesis by blast
    next
      case 2
      with Cons.IH obtain pre post where "cs = pre @ sub @ post" by auto
      then have "c # cs = (c # pre) @ sub @ post" by simp
      then show ?thesis by blast
    qed
  next
    assume "\<exists>pre post. c # cs = pre @ sub @ post"
    then obtain pre post where eq: "c # cs = pre @ sub @ post" by auto
    show "str_in sub (c # cs)"
    proof (cases pre)
      case Nil
      with eq have "startswith (c # cs) sub" by (auto simp: startswith_iff)
      then show ?thesis by simp
    next
      case (Cons d ds)
      with eq have "cs = ds @ sub @ post" by simp
      with Cons.IH have "str_in sub cs" by blast
      then show ?thesis by simp
    qed
  qed
qed

text \<open>Nothing to replace: the text stays.\<close>

lemma str_replace_absent: "old \<noteq> [] \<Longrightarrow> \<not> str_in old s \<Longrightarrow> str_replace s old new = s"
proof (induction s)
  case Nil
  then show ?case by simp
next
  case (Cons c cs)
  from Cons.prems have "\<not> startswith (c # cs) old" and "\<not> str_in old cs" by auto
  then have "strip_prefix old (c # cs) = None" by (simp add: startswith_def)
  with Cons show ?case by simp
qed

text \<open>The first occurrence is replaced, and the replacement goes on after it.\<close>

lemma str_replace_first:
  "old \<noteq> [] \<Longrightarrow> \<not> str_in old (pre @ butlast old) \<Longrightarrow>
     str_replace (pre @ old @ post) old new = pre @ new @ str_replace post old new"
proof (induction pre)
  case Nil
  then obtain c cs where old: "old = c # cs" by (cases old) auto
  have "strip_prefix old (old @ post) = Some post" by (simp add: strip_prefix_iff)
  then show ?case using old by simp
next
  case (Cons d ds)
  have "\<not> startswith ((d # ds) @ old @ post) old"
  proof
    assume "startswith ((d # ds) @ old @ post) old"
    then obtain r where r: "(d # ds) @ old @ post = old @ r" by (auto simp: startswith_iff)
    have "length old \<le> length ((d # ds) @ butlast old)" using Cons.prems(1)
      by (cases old rule: rev_cases) auto
    then have "take (length old) ((d # ds) @ butlast old) = old"
      using r Cons.prems(1)
      by (metis append.assoc append_butlast_last_id append_eq_conv_conj take_append take_all_iff
          append_eq_append_conv_if)
    then have "(d # ds) @ butlast old = old @ drop (length old) ((d # ds) @ butlast old)"
      by (metis append_take_drop_id)
    then have "(d # ds) @ butlast old = [] @ old @ drop (length old) ((d # ds) @ butlast old)"
      by simp
    then have "str_in old ((d # ds) @ butlast old)" unfolding str_in_iff by blast
    with Cons.prems show False by simp
  qed
  then have none: "strip_prefix old (d # ds @ old @ post) = None" by (simp add: startswith_def)
  have "\<not> str_in old (ds @ butlast old)"
    using Cons.prems(2) by auto
  from Cons.IH [OF Cons.prems(1) this] none Cons.prems(1) show ?case by simp
qed

text \<open>An occurrence has a first occurrence.\<close>

lemma str_in_first:
  "old \<noteq> [] \<Longrightarrow> str_in old s \<Longrightarrow>
     \<exists>pre post. s = pre @ old @ post \<and> \<not> str_in old (pre @ butlast old)"
proof (induction s)
  case Nil
  then show ?case by simp
next
  case (Cons c cs)
  show ?case
  proof (cases "startswith (c # cs) old")
    case True
    then obtain r where "c # cs = [] @ old @ r" by (auto simp: startswith_iff)
    moreover have "\<not> str_in old ([] @ butlast old)"
    proof
      assume "str_in old ([] @ butlast old)"
      then obtain pre post where "butlast old = pre @ old @ post" by (auto simp: str_in_iff)
      then have "length (butlast old) = length pre + length old + length post"
        by (metis length_append add.assoc)
      then have "length old - 1 = length pre + length old + length post"
        by (simp only: length_butlast)
      moreover from Cons.prems(1) have "0 < length old" by simp
      ultimately show False by arith
    qed
    ultimately show ?thesis by blast
  next
    case False
    with Cons.prems have "str_in old cs" by simp
    from Cons.IH [OF Cons.prems(1) this] obtain pre post
      where eq: "cs = pre @ old @ post" and first: "\<not> str_in old (pre @ butlast old)" by auto
    have "\<not> startswith ((c # pre) @ butlast old) old"
    proof
      assume "startswith ((c # pre) @ butlast old) old"
      then obtain r where r: "(c # pre) @ butlast old = old @ r" by (auto simp: startswith_iff)
      have "old = butlast old @ [last old]" using Cons.prems(1) by simp
      then have "c # cs = (c # pre) @ butlast old @ last old # post" using eq
        by (metis append.assoc append_Cons append_Nil)
      then have "c # cs = old @ r @ last old # post" using r
        by (metis append.assoc)
      then have "startswith (c # cs) old" unfolding startswith_iff by blast
      with False show False by simp
    qed
    with first have "\<not> str_in old ((c # pre) @ butlast old)" by simp
    moreover from eq have "c # cs = (c # pre) @ old @ post" by simp
    ultimately show ?thesis by blast
  qed
qed

section \<open>Evaluation on concrete texts\<close>

text \<open>
  The classes on the characters of the examples, and the equations that evaluate the
  functions of the model on a concrete text.
\<close>

lemma in_cls_Space_chars:
  "in_cls Space (CHR 0x0A)" "in_cls Space (CHR 0x20)" "\<not> in_cls Space (CHR 0x21)"
  "\<not> in_cls Space (CHR 0x22)" "\<not> in_cls Space (CHR 0x23)"
  "\<not> in_cls Space (CHR 0x24)" "\<not> in_cls Space (CHR 0x25)"
  "\<not> in_cls Space (CHR 0x26)" "\<not> in_cls Space (CHR 0x27)"
  "\<not> in_cls Space (CHR 0x28)" "\<not> in_cls Space (CHR 0x29)"
  "\<not> in_cls Space (CHR 0x2A)" "\<not> in_cls Space (CHR 0x2B)"
  "\<not> in_cls Space (CHR 0x2C)" "\<not> in_cls Space (CHR 0x2D)"
  "\<not> in_cls Space (CHR 0x2E)" "\<not> in_cls Space (CHR 0x2F)"
  "\<not> in_cls Space (CHR ''0'')" "\<not> in_cls Space (CHR ''1'')"
  "\<not> in_cls Space (CHR ''2'')" "\<not> in_cls Space (CHR ''3'')"
  "\<not> in_cls Space (CHR ''4'')" "\<not> in_cls Space (CHR ''5'')"
  "\<not> in_cls Space (CHR ''6'')" "\<not> in_cls Space (CHR ''7'')"
  "\<not> in_cls Space (CHR ''8'')" "\<not> in_cls Space (CHR ''9'')"
  "\<not> in_cls Space (CHR 0x3A)" "\<not> in_cls Space (CHR 0x3B)"
  "\<not> in_cls Space (CHR 0x3C)" "\<not> in_cls Space (CHR 0x3D)"
  "\<not> in_cls Space (CHR 0x3E)" "\<not> in_cls Space (CHR 0x3F)"
  "\<not> in_cls Space (CHR 0x40)" "\<not> in_cls Space (CHR ''A'')"
  "\<not> in_cls Space (CHR ''B'')" "\<not> in_cls Space (CHR ''C'')"
  "\<not> in_cls Space (CHR ''D'')" "\<not> in_cls Space (CHR ''E'')"
  "\<not> in_cls Space (CHR ''F'')" "\<not> in_cls Space (CHR ''G'')"
  "\<not> in_cls Space (CHR ''H'')" "\<not> in_cls Space (CHR ''I'')"
  "\<not> in_cls Space (CHR ''J'')" "\<not> in_cls Space (CHR ''K'')"
  "\<not> in_cls Space (CHR ''L'')" "\<not> in_cls Space (CHR ''M'')"
  "\<not> in_cls Space (CHR ''N'')" "\<not> in_cls Space (CHR ''O'')"
  "\<not> in_cls Space (CHR ''P'')" "\<not> in_cls Space (CHR ''Q'')"
  "\<not> in_cls Space (CHR ''R'')" "\<not> in_cls Space (CHR ''S'')"
  "\<not> in_cls Space (CHR ''T'')" "\<not> in_cls Space (CHR ''U'')"
  "\<not> in_cls Space (CHR ''V'')" "\<not> in_cls Space (CHR ''W'')"
  "\<not> in_cls Space (CHR ''X'')" "\<not> in_cls Space (CHR ''Y'')"
  "\<not> in_cls Space (CHR ''Z'')" "\<not> in_cls Space (CHR 0x5B)"
  "\<not> in_cls Space (CHR 0x5C)" "\<not> in_cls Space (CHR 0x5D)"
  "\<not> in_cls Space (CHR 0x5E)" "\<not> in_cls Space (CHR 0x5F)"
  "\<not> in_cls Space (CHR 0x60)" "\<not> in_cls Space (CHR ''a'')"
  "\<not> in_cls Space (CHR ''b'')" "\<not> in_cls Space (CHR ''c'')"
  "\<not> in_cls Space (CHR ''d'')" "\<not> in_cls Space (CHR ''e'')"
  "\<not> in_cls Space (CHR ''f'')" "\<not> in_cls Space (CHR ''g'')"
  "\<not> in_cls Space (CHR ''h'')" "\<not> in_cls Space (CHR ''i'')"
  "\<not> in_cls Space (CHR ''j'')" "\<not> in_cls Space (CHR ''k'')"
  "\<not> in_cls Space (CHR ''l'')" "\<not> in_cls Space (CHR ''m'')"
  "\<not> in_cls Space (CHR ''n'')" "\<not> in_cls Space (CHR ''o'')"
  "\<not> in_cls Space (CHR ''p'')" "\<not> in_cls Space (CHR ''q'')"
  "\<not> in_cls Space (CHR ''r'')" "\<not> in_cls Space (CHR ''s'')"
  "\<not> in_cls Space (CHR ''t'')" "\<not> in_cls Space (CHR ''u'')"
  "\<not> in_cls Space (CHR ''v'')" "\<not> in_cls Space (CHR ''w'')"
  "\<not> in_cls Space (CHR ''x'')" "\<not> in_cls Space (CHR ''y'')"
  "\<not> in_cls Space (CHR ''z'')" "\<not> in_cls Space (CHR 0x7B)"
  "\<not> in_cls Space (CHR 0x7C)" "\<not> in_cls Space (CHR 0x7D)"
  "\<not> in_cls Space (CHR 0x7E)"
  by simp_all

lemma in_cls_Word_chars:
  "\<not> in_cls Word (CHR 0x0A)" "\<not> in_cls Word (CHR 0x20)"
  "\<not> in_cls Word (CHR 0x21)" "\<not> in_cls Word (CHR 0x22)"
  "\<not> in_cls Word (CHR 0x23)" "\<not> in_cls Word (CHR 0x24)"
  "\<not> in_cls Word (CHR 0x25)" "\<not> in_cls Word (CHR 0x26)"
  "\<not> in_cls Word (CHR 0x27)" "\<not> in_cls Word (CHR 0x28)"
  "\<not> in_cls Word (CHR 0x29)" "\<not> in_cls Word (CHR 0x2A)"
  "\<not> in_cls Word (CHR 0x2B)" "\<not> in_cls Word (CHR 0x2C)"
  "\<not> in_cls Word (CHR 0x2D)" "\<not> in_cls Word (CHR 0x2E)"
  "\<not> in_cls Word (CHR 0x2F)" "in_cls Word (CHR ''0'')" "in_cls Word (CHR ''1'')"
  "in_cls Word (CHR ''2'')" "in_cls Word (CHR ''3'')" "in_cls Word (CHR ''4'')"
  "in_cls Word (CHR ''5'')" "in_cls Word (CHR ''6'')" "in_cls Word (CHR ''7'')"
  "in_cls Word (CHR ''8'')" "in_cls Word (CHR ''9'')" "\<not> in_cls Word (CHR 0x3A)"
  "\<not> in_cls Word (CHR 0x3B)" "\<not> in_cls Word (CHR 0x3C)"
  "\<not> in_cls Word (CHR 0x3D)" "\<not> in_cls Word (CHR 0x3E)"
  "\<not> in_cls Word (CHR 0x3F)" "\<not> in_cls Word (CHR 0x40)" "in_cls Word (CHR ''A'')"
  "in_cls Word (CHR ''B'')" "in_cls Word (CHR ''C'')" "in_cls Word (CHR ''D'')"
  "in_cls Word (CHR ''E'')" "in_cls Word (CHR ''F'')" "in_cls Word (CHR ''G'')"
  "in_cls Word (CHR ''H'')" "in_cls Word (CHR ''I'')" "in_cls Word (CHR ''J'')"
  "in_cls Word (CHR ''K'')" "in_cls Word (CHR ''L'')" "in_cls Word (CHR ''M'')"
  "in_cls Word (CHR ''N'')" "in_cls Word (CHR ''O'')" "in_cls Word (CHR ''P'')"
  "in_cls Word (CHR ''Q'')" "in_cls Word (CHR ''R'')" "in_cls Word (CHR ''S'')"
  "in_cls Word (CHR ''T'')" "in_cls Word (CHR ''U'')" "in_cls Word (CHR ''V'')"
  "in_cls Word (CHR ''W'')" "in_cls Word (CHR ''X'')" "in_cls Word (CHR ''Y'')"
  "in_cls Word (CHR ''Z'')" "\<not> in_cls Word (CHR 0x5B)" "\<not> in_cls Word (CHR 0x5C)"
  "\<not> in_cls Word (CHR 0x5D)" "\<not> in_cls Word (CHR 0x5E)" "in_cls Word (CHR 0x5F)"
  "\<not> in_cls Word (CHR 0x60)" "in_cls Word (CHR ''a'')" "in_cls Word (CHR ''b'')"
  "in_cls Word (CHR ''c'')" "in_cls Word (CHR ''d'')" "in_cls Word (CHR ''e'')"
  "in_cls Word (CHR ''f'')" "in_cls Word (CHR ''g'')" "in_cls Word (CHR ''h'')"
  "in_cls Word (CHR ''i'')" "in_cls Word (CHR ''j'')" "in_cls Word (CHR ''k'')"
  "in_cls Word (CHR ''l'')" "in_cls Word (CHR ''m'')" "in_cls Word (CHR ''n'')"
  "in_cls Word (CHR ''o'')" "in_cls Word (CHR ''p'')" "in_cls Word (CHR ''q'')"
  "in_cls Word (CHR ''r'')" "in_cls Word (CHR ''s'')" "in_cls Word (CHR ''t'')"
  "in_cls Word (CHR ''u'')" "in_cls Word (CHR ''v'')" "in_cls Word (CHR ''w'')"
  "in_cls Word (CHR ''x'')" "in_cls Word (CHR ''y'')" "in_cls Word (CHR ''z'')"
  "\<not> in_cls Word (CHR 0x7B)" "\<not> in_cls Word (CHR 0x7C)"
  "\<not> in_cls Word (CHR 0x7D)" "\<not> in_cls Word (CHR 0x7E)"
  by simp_all

lemma small_numerals:
  "(2::nat) = Suc (Suc 0)" "(3::nat) = Suc (Suc (Suc 0))" "(4::nat) = Suc (Suc (Suc (Suc 0)))"
  by simp_all

lemma window_short: "length xs \<le> 5000 \<Longrightarrow> take 5000 xs = xs"
  by simp

lemmas eval_rules =
  simp_thms if_True if_False option.case option.distinct option.inject list.case list.inject
  list.distinct prod.case fst_conv snd_conv prod.inject char.inject Let_def option.map
  append.simps list.map rev.simps take_Suc_Cons take_0 take.simps(1) drop_Suc_Cons drop_0
  drop.simps(1) takeWhile.simps list.size(3,4) sum_list.Nil sum_list.Cons add_Suc add_Suc_right
  diff_Suc_Suc minus_nat.diff_0 Suc_less_eq zero_less_Suc not_less0
  Suc_le_mono le0 One_nat_def nat.inject nat.distinct item.case
  outcome.distinct small_numerals window_short le_Suc_numeral le_numeral_Suc less_Suc_numeral
  less_numeral_Suc pred_numeral_simps arith_simps rel_simps one_add_one
  numeral_plus_one one_plus_numeral diff_numeral_special diff_self diff_zero less_one
  diff_nat_numeral nat_numeral nat_0 diff_numeral_Suc diff_Suc_numeral Suc_eq_numeral eq_numeral_Suc
  drop_Cons_numeral take_Cons_numeral
  strip_prefix.simps startswith_def str_in.simps find_from.simps str_find_def slice_def
  str_replace.simps str_replace1.simps in_cls.simps(3) in_cls_Space_chars in_cls_Word_chars
  try_down.simps re_match.simps m_start_def m_end_def m_group_def re_search_from.simps
  re_search_def re_finditer_from.simps re_finditer_def re_sub_from.simps re_sub_def
  add_async_trait_import_def impl_pattern_def normalize_pattern_def tags_pattern_def
  resource_id_pattern_def resource_type_pattern_def normalize_sig_pattern_def async_sig_def
  async_tags_code_def sync_impl_comment_def fallback_stmt_def impl_header_def async_header_def
  find_impl_end.simps impl_matches_def modified_impl_def process_match_def
  process_all.simps outcome_msgs.simps final_buffer_def outcomes_def early_skip.simps

lemmas eval_cong =
  if_weak_cong option.case_cong_weak list.case_cong_weak prod.case_cong_weak item.case_cong_weak

subsection \<open>The example file\<close>

lemma example_import: "add_async_trait_import example_file = example_file"
  by (simp only: example_file_def eval_rules cong: eval_cong)

lemma example_matches: "impl_matches example_file = [(0, ''FooNormalizer'')]"
  by (simp only: example_file_def eval_rules cong: eval_cong)

lemma example_process:
  "process_match example_file (0, ''FooNormalizer'') = (example_migrated, Migrated)"
  by (simp only: example_file_def example_migrated_def eval_rules cong: eval_cong)

lemma example_differs: "example_migrated \<noteq> example_file"
  by (simp add: example_file_def example_migrated_def)

lemma example_final: "final_buffer example_file = example_migrated"
  by (simp add: final_buffer_def example_import example_matches example_process)

lemma example_run:
  "migrate_normalizer_file file_path example_file =
     \<lparr>returned = True, written = Some example_migrated,
      printed = [Processing file_path, FoundN 1, MigratedN 1]\<rparr>"
  by (simp add: migrate_normalizer_file_def example_import example_matches example_process
        example_differs)

lemma no_impl_run:
  "migrate_normalizer_file file_path ''fn main() {}'' =
     \<lparr>returned = False, written = None, printed = [Processing file_path, NoImplsFound]\<rparr>"
  by (simp add: migrate_normalizer_file_def)
     (simp only: eval_rules cong: eval_cong)

subsection \<open>The file with an implementation that is skipped\<close>

lemma skipped_import: "add_async_trait_import skipped_file = skipped_file"
  by (simp only: skipped_file_def eval_rules cong: eval_cong)

lemma skipped_matches: "impl_matches skipped_file = [(0, ''FooNormalizer'')]"
  by (simp only: skipped_file_def eval_rules cong: eval_cong)

lemma skipped_process:
  "process_match skipped_file (0, ''FooNormalizer'') = (skipped_file, NoNormalize)"
  by (simp only: skipped_file_def eval_rules cong: eval_cong)

lemma skipped_final: "final_buffer skipped_file = skipped_file"
  by (simp add: final_buffer_def skipped_import skipped_matches skipped_process)

subsection \<open>The file with an import and no implementation\<close>

lemma anchor_only_import:
  "add_async_trait_import anchor_only_file =
     ''use anyhow::Result;\<newline>use async_trait::async_trait;\<newline>''"
  by (simp only: anchor_only_file_def eval_rules cong: eval_cong)

lemma anchor_only_matches:
  "impl_matches ''use anyhow::Result;\<newline>use async_trait::async_trait;\<newline>'' = []"
  by (simp only: eval_rules cong: eval_cong)

lemma anchor_only_final:
  "final_buffer anchor_only_file = ''use anyhow::Result;\<newline>use async_trait::async_trait;\<newline>''"
  by (simp add: final_buffer_def anchor_only_import anchor_only_matches)

subsection \<open>The files with an import to anchor on\<close>

lemma skipped_holds:
  "\<not> str_in ''use async_trait::async_trait;'' skipped_file"
  "\<not> str_in ''use anyhow::Result;'' skipped_file"
  "\<not> str_in ''use chrono::{DateTime, Utc};'' skipped_file"
  by (simp_all only: skipped_file_def eval_rules cong: eval_cong)

lemma anchor_skipped_holds:
  "\<not> str_in ''use async_trait::async_trait;'' anchor_skipped_file"
  "str_in ''use anyhow::Result;'' anchor_skipped_file"
  by (simp_all only: anchor_skipped_file_def eval_rules cong: eval_cong)

lemma anchor_skipped_import:
  "add_async_trait_import anchor_skipped_file = anchor_skipped_imported"
  by (simp only: anchor_skipped_file_def anchor_skipped_imported_def eval_rules cong: eval_cong)

lemma anchor_skipped_matches:
  "impl_matches anchor_skipped_imported = [(50, ''FooNormalizer'')]"
  by (simp only: anchor_skipped_imported_def eval_rules cong: eval_cong)

lemma anchor_skipped_process:
  "process_match anchor_skipped_imported (50, ''FooNormalizer'') =
     (anchor_skipped_imported, NoNormalize)"
  by (simp only: anchor_skipped_imported_def eval_rules cong: eval_cong)

lemma anchor_skipped_outcomes: "outcomes anchor_skipped_file = [NoNormalize]"
  by (simp add: outcomes_def anchor_skipped_import anchor_skipped_matches anchor_skipped_process)

lemma chrono_holds:
  "\<not> str_in ''use async_trait::async_trait;'' chrono_file"
  "\<not> str_in ''use anyhow::Result;'' chrono_file"
  "str_in ''use chrono::{DateTime, Utc};'' chrono_file"
  by (simp_all only: chrono_file_def eval_rules cong: eval_cong)

lemma chrono_import:
  "add_async_trait_import chrono_file =
     ''use async_trait::async_trait;\<newline>use chrono::{DateTime, Utc};\<newline>''"
  by (simp only: chrono_file_def eval_rules cong: eval_cong)

subsection \<open>The text written for the example file, as the file\<close>

lemma migrated_import: "add_async_trait_import example_migrated = example_migrated"
  by (simp only: example_migrated_def eval_rules cong: eval_cong)

lemma migrated_matches: "impl_matches example_migrated = [(882, ''FooNormalizer'')]"
  by (simp only: example_migrated_def eval_rules cong: eval_cong)

lemma migrated_process:
  "process_match example_migrated (882, ''FooNormalizer'') = (example_remigrated, Migrated)"
  by (simp only: example_migrated_def example_remigrated_def eval_rules cong: eval_cong)

lemma migrated_differs: "example_remigrated \<noteq> example_migrated"
proof
  assume "example_remigrated = example_migrated"
  then have "length example_remigrated = length example_migrated" by simp
  then show False by (simp add: example_migrated_def example_remigrated_def)
qed

lemma migrated_final: "final_buffer example_migrated = example_remigrated"
  by (simp add: final_buffer_def migrated_import migrated_matches migrated_process)

subsection \<open>The implementation without its closing brace\<close>

lemma unbalanced_import: "add_async_trait_import unbalanced_file = unbalanced_file"
  by (simp only: unbalanced_file_def eval_rules cong: eval_cong)

lemma unbalanced_matches: "impl_matches unbalanced_file = [(0, ''FooNormalizer'')]"
  by (simp only: unbalanced_file_def eval_rules cong: eval_cong)

lemma unbalanced_process:
  "process_match unbalanced_file (0, ''FooNormalizer'') = (unbalanced_spliced, NoEnd)"
  by (simp only: unbalanced_file_def unbalanced_spliced_def eval_rules cong: eval_cong)

lemma unbalanced_differs: "unbalanced_spliced \<noteq> unbalanced_file"
proof
  assume "unbalanced_spliced = unbalanced_file"
  then have "length unbalanced_spliced = length unbalanced_file" by simp
  then show False by (simp add: unbalanced_file_def unbalanced_spliced_def)
qed

lemma unbalanced_run:
  "migrate_normalizer_file file_path unbalanced_file =
     \<lparr>returned = True, written = Some unbalanced_spliced,
      printed = [Processing file_path, FoundN 1, ErrNoEnd ''FooNormalizer'', MigratedN 1]\<rparr>"
  by (simp add: migrate_normalizer_file_def unbalanced_import unbalanced_matches
        unbalanced_process unbalanced_differs)

subsection \<open>The file with a comment that names an implementation\<close>

lemma shadowed_import: "add_async_trait_import shadowed_file = shadowed_file"
  by (simp only: shadowed_file_def eval_rules cong: eval_cong)

lemma shadowed_matches:
  "impl_matches shadowed_file = [(45, ''BarNormalizer''), (91, ''FooNormalizer'')]"
  by (simp only: shadowed_file_def eval_rules cong: eval_cong)

lemma shadowed_process:
  "process_match shadowed_file (91, ''FooNormalizer'') = (shadowed_after, Migrated)"
  by (simp only: shadowed_file_def shadowed_after_def eval_rules cong: eval_cong)

lemma shadowed_process_2:
  "process_match shadowed_after (45, ''BarNormalizer'') = (shadowed_after, NoTags)"
  by (simp only: shadowed_after_def eval_rules cong: eval_cong)

lemma shadowed_outcomes: "outcomes shadowed_file = [Migrated, NoTags]"
  by (simp add: outcomes_def shadowed_import shadowed_matches shadowed_process
        shadowed_process_2)

lemma shadowed_header_before:
  "startswith (drop 45 shadowed_file) ''impl ResourceNormalizer for BarNormalizer {''"
  by (simp only: shadowed_file_def eval_rules cong: eval_cong)

lemma shadowed_header_after:
  "\<not> startswith (drop 45 shadowed_after) ''impl ResourceNormalizer for BarNormalizer {''"
  by (simp only: shadowed_after_def eval_rules cong: eval_cong)

subsection \<open>The file with two implementations\<close>








section \<open>Properties of the migration of one file\<close>

lemma process_match_early_skip:
  "process_match content m = (content1, oc) \<Longrightarrow> early_skip oc \<Longrightarrow> content1 = content"
  unfolding process_match_def Let_def
  by (auto split: option.splits list.splits)

lemma process_all_early_skip:
  "process_all content ms = (content1, ocs, out) \<Longrightarrow> \<forall>oc\<in>set ocs. early_skip oc \<Longrightarrow>
     content1 = content"
proof (induction ms arbitrary: content content1 ocs out)
  case Nil
  then show ?case by simp
next
  case (Cons m ms)
  obtain c1 oc where pm: "process_match content m = (c1, oc)"
    by (cases "process_match content m") auto
  obtain c2 ocs2 out2 where pa: "process_all c1 ms = (c2, ocs2, out2)"
    by (cases "process_all c1 ms") auto
  from Cons.prems(1) pm pa have eq: "content1 = c2" "ocs = oc # ocs2" by simp_all
  with Cons.prems(2) have "early_skip oc" and "\<forall>oc\<in>set ocs2. early_skip oc" by simp_all
  with process_match_early_skip [OF pm] Cons.IH [OF pa] eq show ?case by simp
qed

lemma migrate_written:
  "written (migrate_normalizer_file file_path original) =
     (if impl_matches (add_async_trait_import original) \<noteq> [] \<and> final_buffer original \<noteq> original
      then Some (final_buffer original) else None)"
  by (simp add: migrate_normalizer_file_def final_buffer_def Let_def split: prod.splits)

lemma migrate_returned:
  "returned (migrate_normalizer_file file_path original) \<longleftrightarrow>
     written (migrate_normalizer_file file_path original) \<noteq> None"
  by (simp add: migrate_normalizer_file_def Let_def split: prod.splits)

lemma final_buffer_no_matches:
  "impl_matches (add_async_trait_import original) = [] \<Longrightarrow>
     final_buffer original = add_async_trait_import original"
  by (simp add: final_buffer_def)

lemma main_one_file:
  "fs file_path = Some (TextFile original) \<Longrightarrow>
     files_after (main fs [prog, file_path]) =
       (case written (migrate_normalizer_file file_path original) of
          None \<Rightarrow> fs | Some t \<Rightarrow> fs(file_path \<mapsto> TextFile t))"
  by (simp add: main_def Let_def split: option.splits)

section \<open>Properties of the command line\<close>

lemma main_loop_append:
  "main_loop fs (xs @ ys) k =
     (case main_loop fs xs k of (fs1, n1, o1, e1) \<Rightarrow>
        (case e1 of
           Uncaught \<Rightarrow> (fs1, n1, o1, Uncaught)
         | Completed \<Rightarrow>
             (case main_loop fs1 ys n1 of (fs2, n2, o2, e2) \<Rightarrow> (fs2, n2, o1 @ o2, e2))))"
  by (induction xs arbitrary: fs k)
     (auto split: option.splits prod.splits ending.splits simp: Let_def)

text \<open>
  Over usable paths the loop runs through the list; usable paths stay usable and a
  missing path stays missing.
\<close>

lemma main_loop_usable:
  "main_loop fs xs k = (fs1, n, out, e) \<Longrightarrow> \<forall>x\<in>set xs. usable fs x \<Longrightarrow>
     e = Completed \<and> (\<forall>p. usable fs p \<longrightarrow> usable fs1 p) \<and> (\<forall>p. fs p = None \<longrightarrow> fs1 p = None)"
proof (induction xs arbitrary: fs k fs1 n out e)
  case Nil
  then show ?case by simp
next
  case (Cons x xs)
  from Cons.prems(2) have ux: "usable fs x" and rest: "\<forall>y\<in>set xs. usable fs y" by simp_all
  show ?case
  proof (cases "fs x")
    case None
    obtain fa na oa ea where a: "main_loop fs xs k = (fa, na, oa, ea)"
      by (cases "main_loop fs xs k") auto
    from Cons.IH [OF a rest] Cons.prems(1) None a show ?thesis by auto
  next
    case (Some en)
    with ux obtain t where en: "en = TextFile t"
      by (auto simp: usable_def split: entry.splits)
    let ?r = "migrate_normalizer_file x t"
    let ?k = "if returned ?r then k + 1 else k"
    show ?thesis
    proof (cases "written ?r")
      case None
      obtain fa na oa ea where a: "main_loop fs xs ?k = (fa, na, oa, ea)"
        by (cases "main_loop fs xs ?k") auto
      from Cons.IH [OF a rest] Cons.prems(1) None a Some en show ?thesis
        by (auto simp: Let_def)
    next
      case (Some w)
      let ?fs = "fs(x \<mapsto> TextFile w)"
      have keep: "usable fs p \<Longrightarrow> usable ?fs p" for p
        by (simp add: usable_def)
      then have rest': "\<forall>y\<in>set xs. usable ?fs y" using rest by blast
      obtain fa na oa ea where a: "main_loop ?fs xs ?k = (fa, na, oa, ea)"
        by (cases "main_loop ?fs xs ?k") auto
      have none: "fs p = None \<Longrightarrow> ?fs p = None" for p
        using \<open>fs x = Some en\<close> by auto
      from Cons.prems(1) Some a \<open>fs x = Some en\<close> en
      have eq: "fs1 = fa" "e = ea" by (simp_all add: Let_def)
      from Cons.IH [OF a rest']
      have "ea = Completed" and k1: "\<forall>p. usable ?fs p \<longrightarrow> usable fa p"
        and k2: "\<forall>p. ?fs p = None \<longrightarrow> fa p = None" by blast+
      with keep none eq show ?thesis by metis
    qed
  qed
qed

text \<open>
  Without the hypothesis on the other paths the run can end before the missing path is
  reached: a directory listed before it ends the run with status 1 and the missing path
  is never reported.
\<close>

lemma unreadable_path_ends_run:
  "main [''somedir'' \<mapsto> NoText] [''migrate_normalizers.py'', ''somedir'', ''missing.rs''] =
     \<lparr>exit_code = 1, stdout = [Processing ''somedir''],
      files_after = [''somedir'' \<mapsto> NoText]\<rparr>"
  by (simp add: main_def)

text \<open>
  Claim C4, as the code has it. Let \<open>p\<close> be a listed path that does not exist, \<open>xs\<close> the
  paths listed before it and \<open>ys\<close> those after it, each of them missing too or a text file
  that can be read and written. Then the run prints the error for \<open>p\<close> between the
  messages of \<open>xs\<close> and those of \<open>ys\<close>, and apart from that line it is the run over \<open>xs\<close>
  and \<open>ys\<close> alone: the files after \<open>p\<close> are processed, the files on disk and the count of
  the summary are the same, so \<open>p\<close> is not counted. The loop completes and the exit status
  is 0.
\<close>

theorem missing_file_run_continues:
  assumes "fs p = None"
    and "\<forall>x\<in>set (xs @ ys). usable fs x"
  shows "case main_loop fs xs 0 of (fs1, n1, o1, e1) \<Rightarrow>
           (case main_loop fs1 ys n1 of (fs2, n2, o2, e2) \<Rightarrow>
              main_loop fs (xs @ ys) 0 = (fs2, n2, o1 @ o2, Completed) \<and>
              main fs (prog # xs @ p # ys) =
                \<lparr>exit_code = 0, stdout = o1 @ ErrFileNotFound p # o2 @ [SummaryN n2],
                 files_after = fs2\<rparr>)"
proof -
  obtain fsa na oa ea where a: "main_loop fs xs 0 = (fsa, na, oa, ea)"
    by (cases "main_loop fs xs 0") auto
  obtain fsb nb ob eb where b: "main_loop fsa ys na = (fsb, nb, ob, eb)"
    by (cases "main_loop fsa ys na") auto
  from assms(2) have uxs: "\<forall>x\<in>set xs. usable fs x" and uys: "\<forall>x\<in>set ys. usable fs x"
    by simp_all
  from main_loop_usable [OF a uxs]
  have ea: "ea = Completed" and keep: "\<forall>q. usable fs q \<longrightarrow> usable fsa q"
    and none: "fsa p = None" using assms(1) by simp_all
  from keep uys have "\<forall>x\<in>set ys. usable fsa x" by blast
  from main_loop_usable [OF b this] have eb: "eb = Completed" by simp
  have whole: "main_loop fs (xs @ ys) 0 = (fsb, nb, oa @ ob, Completed)"
    by (simp add: main_loop_append a b ea eb)
  have withp: "main_loop fs (xs @ p # ys) 0 = (fsb, nb, oa @ ErrFileNotFound p # ob, Completed)"
    by (simp add: main_loop_append a b ea eb none)
  show ?thesis
    by (simp add: a b whole main_def withp)
qed

text \<open>
  An invocation with a file without implementations, a missing path and, after it, the
  example file: the example file is migrated, written and counted.
\<close>

theorem missing_file_run_continues_witness:
  "[''plain.rs'' \<mapsto> TextFile ''fn main() {}'', ''good.rs'' \<mapsto> TextFile example_file]
     ''missing.rs'' = None \<and>
   usable [''plain.rs'' \<mapsto> TextFile ''fn main() {}'', ''good.rs'' \<mapsto> TextFile example_file]
     ''plain.rs'' \<and>
   usable [''plain.rs'' \<mapsto> TextFile ''fn main() {}'', ''good.rs'' \<mapsto> TextFile example_file]
     ''good.rs'' \<and>
   main_loop [''plain.rs'' \<mapsto> TextFile ''fn main() {}'', ''good.rs'' \<mapsto> TextFile example_file]
     [''plain.rs'', ''good.rs''] 0 =
     ([''plain.rs'' \<mapsto> TextFile ''fn main() {}'', ''good.rs'' \<mapsto> TextFile example_migrated], 1,
      [Processing ''plain.rs'', NoImplsFound, Processing ''good.rs'', FoundN 1, MigratedN 1],
      Completed) \<and>
   main [''plain.rs'' \<mapsto> TextFile ''fn main() {}'', ''good.rs'' \<mapsto> TextFile example_file]
     [''migrate_normalizers.py'', ''plain.rs'', ''missing.rs'', ''good.rs''] =
     \<lparr>exit_code = 0,
      stdout = [Processing ''plain.rs'', NoImplsFound, ErrFileNotFound ''missing.rs'',
                Processing ''good.rs'', FoundN 1, MigratedN 1, SummaryN 1],
      files_after =
        [''plain.rs'' \<mapsto> TextFile ''fn main() {}'', ''good.rs'' \<mapsto> TextFile example_migrated]\<rparr>"
  using missing_file_run_continues
    [where fs = "[''plain.rs'' \<mapsto> TextFile ''fn main() {}'', ''good.rs'' \<mapsto> TextFile example_file]"
       and p = "''missing.rs''" and xs = "[''plain.rs'']" and ys = "[''good.rs'']"
       and prog = "''migrate_normalizers.py''"]
  by (simp add: usable_def example_run no_impl_run)

text \<open>
  Claim C4 as stated asks for a nonzero exit indication. With the only listed path
  missing, the run ends with exit status 0.
\<close>

theorem missing_file_exit_counterexample:
  "\<not> exit_code (main Map.empty [''migrate_normalizers.py'', ''missing.rs'']) \<noteq> 0"
  by (simp add: main_def)

section \<open>Properties of the write\<close>

text \<open>
  Claim C8 as stated has the file written whenever the final buffer differs from the
  original text. A file with an import to anchor on and no implementation has the import
  inserted into the buffer, and the function returns at line 42 without writing it.
\<close>

theorem write_iff_changed_counterexample:
  "\<not> (written (migrate_normalizer_file ''a.rs'' anchor_only_file) \<noteq> None \<longleftrightarrow>
       final_buffer anchor_only_file \<noteq> anchor_only_file)"
proof -
  have "final_buffer anchor_only_file \<noteq> anchor_only_file"
    by (simp add: anchor_only_final) (simp add: anchor_only_file_def)
  moreover have "written (migrate_normalizer_file ''a.rs'' anchor_only_file) = None"
    by (simp add: migrate_written anchor_only_import anchor_only_matches)
  ultimately show ?thesis by simp
qed

text \<open>
  Claim C8, as the code has it. For a file with at least one located match, the file is
  written, with the final buffer, if and only if the final buffer differs from the original
  text. Every file whose final buffer equals its original text is left as it is: nothing
  is written and the file system after the run is the one before.
\<close>

theorem write_iff_changed:
  assumes "fs file_path = Some (TextFile original)"
  shows "(impl_matches (add_async_trait_import original) \<noteq> [] \<longrightarrow>
            written (migrate_normalizer_file file_path original) =
              (if final_buffer original \<noteq> original then Some (final_buffer original) else None) \<and>
            files_after (main fs [prog, file_path]) =
              (if final_buffer original \<noteq> original
               then fs(file_path \<mapsto> TextFile (final_buffer original)) else fs)) \<and>
         (final_buffer original = original \<longrightarrow>
            written (migrate_normalizer_file file_path original) = None \<and>
            files_after (main fs [prog, file_path]) = fs)"
  using assms by (simp add: main_one_file migrate_written)

text \<open>
  The example file has a match and its final buffer differs: it is written. The file with
  the skipped implementation has a match and its final buffer is the original text: it is
  not written.
\<close>

theorem write_iff_changed_witness:
  "[''good.rs'' \<mapsto> TextFile example_file] ''good.rs'' = Some (TextFile example_file) \<and>
   impl_matches (add_async_trait_import example_file) \<noteq> [] \<and>
   final_buffer example_file \<noteq> example_file \<and>
   written (migrate_normalizer_file ''good.rs'' example_file) = Some example_migrated \<and>
   files_after (main [''good.rs'' \<mapsto> TextFile example_file] [''migrate_normalizers.py'', ''good.rs'']) =
     [''good.rs'' \<mapsto> TextFile example_migrated] \<and>
   [''skip.rs'' \<mapsto> TextFile skipped_file] ''skip.rs'' = Some (TextFile skipped_file) \<and>
   impl_matches (add_async_trait_import skipped_file) \<noteq> [] \<and>
   final_buffer skipped_file = skipped_file \<and>
   written (migrate_normalizer_file ''skip.rs'' skipped_file) = None \<and>
   files_after (main [''skip.rs'' \<mapsto> TextFile skipped_file] [''migrate_normalizers.py'', ''skip.rs'']) =
     [''skip.rs'' \<mapsto> TextFile skipped_file]"
  using write_iff_changed
    [where fs = "[''good.rs'' \<mapsto> TextFile example_file]" and file_path = "''good.rs''"
       and original = example_file and prog = "''migrate_normalizers.py''"]
    write_iff_changed
    [where fs = "[''skip.rs'' \<mapsto> TextFile skipped_file]" and file_path = "''skip.rs''"
       and original = skipped_file and prog = "''migrate_normalizers.py''"]
  by (simp add: example_final example_import example_matches example_differs
        skipped_final skipped_import skipped_matches)

section \<open>Properties of the import insertion\<close>

lemma str_in_middle: "str_in sub (pre @ sub @ post)"
  unfolding str_in_iff by blast

lemma import_after_anyhow:
  assumes "str_in ''use anyhow::Result;'' original"
  shows "\<exists>pre post. original = pre @ ''use anyhow::Result;'' @ post \<and>
           \<not> str_in ''use anyhow::Result;'' (pre @ butlast ''use anyhow::Result;'') \<and>
           str_replace original ''use anyhow::Result;''
               ''use anyhow::Result;\<newline>use async_trait::async_trait;'' =
             pre @ ''use anyhow::Result;\<newline>use async_trait::async_trait;'' @
             str_replace post ''use anyhow::Result;''
               ''use anyhow::Result;\<newline>use async_trait::async_trait;''"
proof -
  have ne: "''use anyhow::Result;'' \<noteq> []" by simp
  from str_in_first [OF ne assms] obtain pre post
    where eq: "original = pre @ ''use anyhow::Result;'' @ post"
      and first: "\<not> str_in ''use anyhow::Result;'' (pre @ butlast ''use anyhow::Result;'')"
    by blast
  from str_replace_first [OF ne first] eq first show ?thesis by blast
qed

lemma import_before_chrono:
  assumes "str_in ''use chrono::{DateTime, Utc};'' original"
  shows "\<exists>pre post. original = pre @ ''use chrono::{DateTime, Utc};'' @ post \<and>
           \<not> str_in ''use chrono::{DateTime, Utc};'' (pre @ butlast ''use chrono::{DateTime, Utc};'') \<and>
           str_replace original ''use chrono::{DateTime, Utc};''
               ''use async_trait::async_trait;\<newline>use chrono::{DateTime, Utc};'' =
             pre @ ''use async_trait::async_trait;\<newline>use chrono::{DateTime, Utc};'' @
             str_replace post ''use chrono::{DateTime, Utc};''
               ''use async_trait::async_trait;\<newline>use chrono::{DateTime, Utc};''"
proof -
  have ne: "''use chrono::{DateTime, Utc};'' \<noteq> []" by simp
  from str_in_first [OF ne assms] obtain pre post
    where eq: "original = pre @ ''use chrono::{DateTime, Utc};'' @ post"
      and first: "\<not> str_in ''use chrono::{DateTime, Utc};''
                      (pre @ butlast ''use chrono::{DateTime, Utc};'')"
    by blast
  from str_replace_first [OF ne first] eq first show ?thesis by blast
qed

text \<open>After the insertion the buffer holds the import.\<close>

lemma import_present_after:
  assumes "str_in ''use anyhow::Result;'' original \<or> str_in ''use chrono::{DateTime, Utc};'' original"
  shows "str_in ''use async_trait::async_trait;'' (add_async_trait_import original)"
proof (cases "str_in ''use async_trait::async_trait;'' original")
  case True
  then show ?thesis by (simp add: add_async_trait_import_def)
next
  case absent: False
  show ?thesis
  proof (cases "str_in ''use anyhow::Result;'' original")
    case True
    from import_after_anyhow [OF True] obtain pre post where
      "str_replace original ''use anyhow::Result;''
         ''use anyhow::Result;\<newline>use async_trait::async_trait;'' =
       pre @ ''use anyhow::Result;\<newline>use async_trait::async_trait;'' @
       str_replace post ''use anyhow::Result;''
         ''use anyhow::Result;\<newline>use async_trait::async_trait;''" by blast
    then have "str_replace original ''use anyhow::Result;''
         ''use anyhow::Result;\<newline>use async_trait::async_trait;'' =
       (pre @ ''use anyhow::Result;\<newline>'') @ ''use async_trait::async_trait;'' @
       str_replace post ''use anyhow::Result;''
         ''use anyhow::Result;\<newline>use async_trait::async_trait;''" by simp
    then have "str_in ''use async_trait::async_trait;''
       (str_replace original ''use anyhow::Result;''
         ''use anyhow::Result;\<newline>use async_trait::async_trait;'')"
      by (simp only: str_in_middle)
    with absent True show ?thesis by (simp add: add_async_trait_import_def)
  next
    case False
    with assms have chrono: "str_in ''use chrono::{DateTime, Utc};'' original" by simp
    from import_before_chrono [OF chrono] obtain pre post where
      "str_replace original ''use chrono::{DateTime, Utc};''
         ''use async_trait::async_trait;\<newline>use chrono::{DateTime, Utc};'' =
       pre @ ''use async_trait::async_trait;\<newline>use chrono::{DateTime, Utc};'' @
       str_replace post ''use chrono::{DateTime, Utc};''
         ''use async_trait::async_trait;\<newline>use chrono::{DateTime, Utc};''" by blast
    then have "str_replace original ''use chrono::{DateTime, Utc};''
         ''use async_trait::async_trait;\<newline>use chrono::{DateTime, Utc};'' =
       pre @ ''use async_trait::async_trait;'' @ (''\<newline>use chrono::{DateTime, Utc};'' @
       str_replace post ''use chrono::{DateTime, Utc};''
         ''use async_trait::async_trait;\<newline>use chrono::{DateTime, Utc};'')" by simp
    then have "str_in ''use async_trait::async_trait;''
       (str_replace original ''use chrono::{DateTime, Utc};''
         ''use async_trait::async_trait;\<newline>use chrono::{DateTime, Utc};'')"
      by (simp only: str_in_middle)
    with absent False chrono show ?thesis by (simp add: add_async_trait_import_def)
  qed
qed

lemma import_changes:
  assumes "\<not> str_in ''use async_trait::async_trait;'' original"
    and "str_in ''use anyhow::Result;'' original \<or> str_in ''use chrono::{DateTime, Utc};'' original"
  shows "add_async_trait_import original \<noteq> original"
  using import_present_after [OF assms(2)] assms(1) by auto

text \<open>A second insertion does nothing.\<close>

lemma add_async_trait_import_idem:
  "add_async_trait_import (add_async_trait_import content) = add_async_trait_import content"
proof (cases "str_in ''use anyhow::Result;'' content \<or> str_in ''use chrono::{DateTime, Utc};'' content")
  case True
  from import_present_after [OF True] show ?thesis
    by (simp add: add_async_trait_import_def [of "add_async_trait_import content"])
next
  case False
  then have "add_async_trait_import content = content" by (simp add: add_async_trait_import_def)
  then show ?thesis by simp
qed

lemma skipped_written:
  assumes "impl_matches (add_async_trait_import original) \<noteq> []"
    and "\<forall>oc\<in>set (outcomes original). early_skip oc"
  shows "final_buffer original = add_async_trait_import original"
proof -
  let ?c = "add_async_trait_import original"
  obtain c1 ocs out where pa: "process_all ?c (rev (impl_matches ?c)) = (c1, ocs, out)"
    by (cases "process_all ?c (rev (impl_matches ?c))") auto
  with assms(2) have "\<forall>oc\<in>set ocs. early_skip oc" by (simp add: outcomes_def)
  from process_all_early_skip [OF pa this] pa show ?thesis by (simp add: final_buffer_def)
qed

text \<open>
  Claim C9. A file holds a text when the text occurs in it, as \<^verbatim>\<open>in\<close> tests it. Let
  the file not hold \<^verbatim>\<open>use async_trait::async_trait;\<close>. If it holds
  \<^verbatim>\<open>use anyhow::Result;\<close>, the import is inserted on the line after its first occurrence
  (and the rest of the file is treated the same way); otherwise, if it holds
  \<^verbatim>\<open>use chrono::{DateTime, Utc};\<close>, the import is inserted on the line before its first
  occurrence; with neither, the buffer is the file. The matches are located in the buffer
  that has the import: when an import was inserted, there are matches and each of them is
  skipped at one of the searches, the buffer differs from the file by the import alone and
  is written.
\<close>

theorem import_insertion:
  assumes "\<not> str_in ''use async_trait::async_trait;'' original"
  shows "(str_in ''use anyhow::Result;'' original \<longrightarrow>
           (\<exists>pre post. original = pre @ ''use anyhow::Result;'' @ post \<and>
              \<not> str_in ''use anyhow::Result;'' (pre @ butlast ''use anyhow::Result;'') \<and>
              add_async_trait_import original =
                pre @ ''use anyhow::Result;\<newline>use async_trait::async_trait;'' @
                str_replace post ''use anyhow::Result;''
                  ''use anyhow::Result;\<newline>use async_trait::async_trait;'')) \<and>
         (\<not> str_in ''use anyhow::Result;'' original \<and>
          str_in ''use chrono::{DateTime, Utc};'' original \<longrightarrow>
           (\<exists>pre post. original = pre @ ''use chrono::{DateTime, Utc};'' @ post \<and>
              \<not> str_in ''use chrono::{DateTime, Utc};''
                  (pre @ butlast ''use chrono::{DateTime, Utc};'') \<and>
              add_async_trait_import original =
                pre @ ''use async_trait::async_trait;\<newline>use chrono::{DateTime, Utc};'' @
                str_replace post ''use chrono::{DateTime, Utc};''
                  ''use async_trait::async_trait;\<newline>use chrono::{DateTime, Utc};'')) \<and>
         (\<not> str_in ''use anyhow::Result;'' original \<and>
          \<not> str_in ''use chrono::{DateTime, Utc};'' original \<longrightarrow>
           add_async_trait_import original = original) \<and>
         ((str_in ''use anyhow::Result;'' original \<or>
           str_in ''use chrono::{DateTime, Utc};'' original) \<and>
          impl_matches (add_async_trait_import original) \<noteq> [] \<and>
          (\<forall>oc\<in>set (outcomes original). early_skip oc) \<longrightarrow>
           add_async_trait_import original \<noteq> original \<and>
           written (migrate_normalizer_file file_path original) =
             Some (add_async_trait_import original))"
proof (intro conjI impI)
  assume a: "str_in ''use anyhow::Result;'' original"
  from import_after_anyhow [OF a] assms a
  show "\<exists>pre post. original = pre @ ''use anyhow::Result;'' @ post \<and>
          \<not> str_in ''use anyhow::Result;'' (pre @ butlast ''use anyhow::Result;'') \<and>
          add_async_trait_import original =
            pre @ ''use anyhow::Result;\<newline>use async_trait::async_trait;'' @
            str_replace post ''use anyhow::Result;''
              ''use anyhow::Result;\<newline>use async_trait::async_trait;''"
    by (simp add: add_async_trait_import_def)
next
  assume b: "\<not> str_in ''use anyhow::Result;'' original \<and>
             str_in ''use chrono::{DateTime, Utc};'' original"
  then have c: "str_in ''use chrono::{DateTime, Utc};'' original" by simp
  from import_before_chrono [OF c] assms b
  show "\<exists>pre post. original = pre @ ''use chrono::{DateTime, Utc};'' @ post \<and>
          \<not> str_in ''use chrono::{DateTime, Utc};''
              (pre @ butlast ''use chrono::{DateTime, Utc};'') \<and>
          add_async_trait_import original =
            pre @ ''use async_trait::async_trait;\<newline>use chrono::{DateTime, Utc};'' @
            str_replace post ''use chrono::{DateTime, Utc};''
              ''use async_trait::async_trait;\<newline>use chrono::{DateTime, Utc};''"
    by (simp add: add_async_trait_import_def)
next
  assume "\<not> str_in ''use anyhow::Result;'' original \<and>
          \<not> str_in ''use chrono::{DateTime, Utc};'' original"
  then show "add_async_trait_import original = original"
    by (simp add: add_async_trait_import_def)
next
  assume h: "(str_in ''use anyhow::Result;'' original \<or>
              str_in ''use chrono::{DateTime, Utc};'' original) \<and>
             impl_matches (add_async_trait_import original) \<noteq> [] \<and>
             (\<forall>oc\<in>set (outcomes original). early_skip oc)"
  then show "add_async_trait_import original \<noteq> original"
    using import_changes [OF assms] by blast
next
  assume h: "(str_in ''use anyhow::Result;'' original \<or>
              str_in ''use chrono::{DateTime, Utc};'' original) \<and>
             impl_matches (add_async_trait_import original) \<noteq> [] \<and>
             (\<forall>oc\<in>set (outcomes original). early_skip oc)"
  then have ne: "add_async_trait_import original \<noteq> original"
    using import_changes [OF assms] by blast
  from h have "final_buffer original = add_async_trait_import original"
    using skipped_written by blast
  with h ne show "written (migrate_normalizer_file file_path original) =
                    Some (add_async_trait_import original)"
    by (simp add: migrate_written)
qed

text \<open>
  A file with the first anchor and one implementation that is skipped, a file with the
  second anchor, and a file with neither.
\<close>

theorem import_insertion_witness:
  "\<not> str_in ''use async_trait::async_trait;'' anchor_skipped_file \<and>
   str_in ''use anyhow::Result;'' anchor_skipped_file \<and>
   impl_matches (add_async_trait_import anchor_skipped_file) \<noteq> [] \<and>
   outcomes anchor_skipped_file = [NoNormalize] \<and>
   add_async_trait_import anchor_skipped_file = anchor_skipped_imported \<and>
   anchor_skipped_imported \<noteq> anchor_skipped_file \<and>
   written (migrate_normalizer_file ''a.rs'' anchor_skipped_file) =
     Some anchor_skipped_imported \<and>
   \<not> str_in ''use async_trait::async_trait;'' chrono_file \<and>
   \<not> str_in ''use anyhow::Result;'' chrono_file \<and>
   str_in ''use chrono::{DateTime, Utc};'' chrono_file \<and>
   add_async_trait_import chrono_file =
     ''use async_trait::async_trait;\<newline>use chrono::{DateTime, Utc};\<newline>'' \<and>
   \<not> str_in ''use async_trait::async_trait;'' skipped_file \<and>
   \<not> str_in ''use anyhow::Result;'' skipped_file \<and>
   \<not> str_in ''use chrono::{DateTime, Utc};'' skipped_file \<and>
   add_async_trait_import skipped_file = skipped_file"
proof -
  have skipped:
    "add_async_trait_import anchor_skipped_file \<noteq> anchor_skipped_file \<and>
     written (migrate_normalizer_file ''a.rs'' anchor_skipped_file) =
       Some (add_async_trait_import anchor_skipped_file)"
    by (rule import_insertion
          [where original = anchor_skipped_file and file_path = "''a.rs''",
           OF anchor_skipped_holds(1), THEN conjunct2, THEN conjunct2, THEN conjunct2, THEN mp])
       (simp add: anchor_skipped_holds anchor_skipped_import anchor_skipped_matches
          anchor_skipped_outcomes)
  have chrono:
    "\<exists>pre post. chrono_file = pre @ ''use chrono::{DateTime, Utc};'' @ post \<and>
       \<not> str_in ''use chrono::{DateTime, Utc};''
           (pre @ butlast ''use chrono::{DateTime, Utc};'') \<and>
       add_async_trait_import chrono_file =
         pre @ ''use async_trait::async_trait;\<newline>use chrono::{DateTime, Utc};'' @
         str_replace post ''use chrono::{DateTime, Utc};''
           ''use async_trait::async_trait;\<newline>use chrono::{DateTime, Utc};''"
    by (rule import_insertion
          [where original = chrono_file and file_path = "''b.rs''",
           OF chrono_holds(1), THEN conjunct2, THEN conjunct1, THEN mp])
       (simp add: chrono_holds)
  have neither: "add_async_trait_import skipped_file = skipped_file"
    by (rule import_insertion
          [where original = skipped_file and file_path = "''c.rs''",
           OF skipped_holds(1), THEN conjunct2, THEN conjunct2, THEN conjunct1, THEN mp])
       (simp add: skipped_holds)
  from skipped neither show ?thesis
    by (simp add: anchor_skipped_holds anchor_skipped_import anchor_skipped_matches
          anchor_skipped_outcomes chrono_holds chrono_import skipped_holds)
qed

section \<open>Properties of a second run\<close>

lemma final_buffer_of_buffer:
  "final_buffer (add_async_trait_import original) = final_buffer original"
  by (simp add: final_buffer_def add_async_trait_import_idem)

lemma migrate_unchanged_report:
  assumes "impl_matches (add_async_trait_import original) \<noteq> []"
    and "final_buffer original = original"
  shows "last (printed (migrate_normalizer_file file_path original)) = NoChangesNeeded"
proof -
  let ?c = "add_async_trait_import original"
  obtain c1 ocs out where pa: "process_all ?c (rev (impl_matches ?c)) = (c1, ocs, out)"
    by (cases "process_all ?c (rev (impl_matches ?c))") auto
  with assms(2) have "c1 = original" by (simp add: final_buffer_def)
  with assms(1) pa show ?thesis by (simp add: migrate_normalizer_file_def)
qed

text \<open>
  Claim C1 as stated has the second run change nothing. The first run on the example file
  writes a text in which the retained implementation still has the statement
  \<^verbatim>\<open>let tags = extract_tags(&raw_response);\<close>, now followed by a comment, and its header
  is the first occurrence of the header text; the second run migrates it again: its final
  buffer differs from its input and is written.
\<close>

theorem second_run_counterexample:
  "\<not> (case written (migrate_normalizer_file ''a.rs'' example_file) of
        None \<Rightarrow> True
      | Some out1 \<Rightarrow>
          final_buffer out1 = out1 \<and> written (migrate_normalizer_file ''a.rs'' out1) = None)"
  by (simp add: example_run migrated_final migrated_differs)

text \<open>
  Claim C1, as the code has it. Let the first run locate at least one match and skip
  every located match at one of the four searches, so that it migrates none. Then the
  second run, on the text that the first run left in the file, changes nothing: its final
  buffer is its input, nothing is written and the report is that no changes were needed.
\<close>

theorem second_run_after_skips:
  assumes "impl_matches (add_async_trait_import original) \<noteq> []"
    and "\<forall>oc\<in>set (outcomes original). early_skip oc"
  shows "let out1 = (case written (migrate_normalizer_file file_path original) of
                       None \<Rightarrow> original | Some t \<Rightarrow> t)
         in final_buffer out1 = out1 \<and>
            written (migrate_normalizer_file file_path out1) = None \<and>
            last (printed (migrate_normalizer_file file_path out1)) = NoChangesNeeded"
proof -
  let ?c = "add_async_trait_import original"
  from skipped_written [OF assms] have fin: "final_buffer original = ?c" .
  have out1: "(case written (migrate_normalizer_file file_path original) of
                 None \<Rightarrow> original | Some t \<Rightarrow> t) = ?c"
    using assms(1) fin by (simp add: migrate_written)
  have fc: "final_buffer ?c = ?c"
    using fin by (simp add: final_buffer_of_buffer)
  have mc: "impl_matches (add_async_trait_import ?c) \<noteq> []"
    using assms(1) by (simp add: add_async_trait_import_idem)
  have "written (migrate_normalizer_file file_path ?c) = None"
    using fc by (simp add: migrate_written)
  moreover have "last (printed (migrate_normalizer_file file_path ?c)) = NoChangesNeeded"
    by (rule migrate_unchanged_report [OF mc fc])
  ultimately show ?thesis
    using fc by (simp only: out1 Let_def)
qed

text \<open>
  The file with an import to anchor on and an implementation without a
  \<^verbatim>\<open>normalize\<close> method: the first run writes it with the import, the second run leaves it.
\<close>

theorem second_run_after_skips_witness:
  "impl_matches (add_async_trait_import anchor_skipped_file) \<noteq> [] \<and>
   outcomes anchor_skipped_file = [NoNormalize] \<and> early_skip NoNormalize \<and>
   written (migrate_normalizer_file ''a.rs'' anchor_skipped_file) = Some anchor_skipped_imported \<and>
   final_buffer anchor_skipped_imported = anchor_skipped_imported \<and>
   written (migrate_normalizer_file ''a.rs'' anchor_skipped_imported) = None \<and>
   last (printed (migrate_normalizer_file ''a.rs'' anchor_skipped_imported)) = NoChangesNeeded"
proof -
  have w: "written (migrate_normalizer_file ''a.rs'' anchor_skipped_file) =
             Some anchor_skipped_imported"
    using import_changes [OF anchor_skipped_holds(1)] anchor_skipped_holds(2)
    by (simp add: migrate_written anchor_skipped_import anchor_skipped_matches skipped_written
          anchor_skipped_outcomes)
  from second_run_after_skips [where original = anchor_skipped_file and file_path = "''a.rs''"]
  show ?thesis
    by (simp add: w anchor_skipped_import anchor_skipped_matches anchor_skipped_outcomes)
qed

section \<open>Properties of the skips\<close>

text \<open>
  The skips at one of the four searches leave the buffer as it was
  (\<open>process_match_early_skip\<close>). Claim C2 says the same of a block whose braces do not
  balance. At the example implementation without its closing brace the statement
  \<^verbatim>\<open>let tags = extract_tags(&raw_response);\<close> is replaced at line 112, the scan for the
  closing brace fails after that, and the match is skipped with the replacement left in
  the buffer; the file is written with it and reported as migrated.
\<close>

theorem unbalanced_block_edited:
  "process_match unbalanced_file (0, ''FooNormalizer'') = (unbalanced_spliced, NoEnd) \<and>
   unbalanced_spliced \<noteq> unbalanced_file \<and>
   migrate_normalizer_file ''a.rs'' unbalanced_file =
     \<lparr>returned = True, written = Some unbalanced_spliced,
      printed = [Processing ''a.rs'', FoundN 1, ErrNoEnd ''FooNormalizer'', MigratedN 1]\<rparr>"
  by (simp add: unbalanced_process unbalanced_differs unbalanced_run)

section \<open>Properties of the order of processing\<close>

text \<open>The matches are located at strictly ascending offsets; the loop takes them in reverse.\<close>

lemma re_finditer_from_offsets:
  "sorted_wrt (<) (map fst (re_finditer_from pat skip off s)) \<and>
   (\<forall>m\<in>set (re_finditer_from pat skip off s). off \<le> fst m)"
proof (induction pat skip off s rule: re_finditer_from.induct)
  case (1 pat skip off)
  then show ?case by simp
next
  case (2 pat skip off c cs)
  then show ?case
    by (auto split: option.splits) (fastforce+)?
qed

lemma impl_matches_ascending: "sorted_wrt (<) (map fst (impl_matches content))"
  using re_finditer_from_offsets [of impl_pattern 0 0 content]
  by (simp add: impl_matches_def re_finditer_def m_start_def comp_def)

text \<open>
  Claim C7 says that the recorded offsets of the matches not yet processed stay valid.
  Line 127 looks for the header text of the match from the start of the buffer. In the
  example a comment before both implementations names the second one: when the second
  match is processed, the span that is replaced starts in the comment and covers the first
  implementation, whose recorded offset 45 then no longer points at its header.
\<close>

theorem shadowed_offsets_invalidated:
  "impl_matches shadowed_file = [(45, ''BarNormalizer''), (91, ''FooNormalizer'')] \<and>
   startswith (drop 45 shadowed_file) ''impl ResourceNormalizer for BarNormalizer {'' \<and>
   process_match shadowed_file (91, ''FooNormalizer'') = (shadowed_after, Migrated) \<and>
   \<not> startswith (drop 45 shadowed_after) ''impl ResourceNormalizer for BarNormalizer {'' \<and>
   outcomes shadowed_file = [Migrated, NoTags]"
  by (simp add: shadowed_matches shadowed_header_before shadowed_process shadowed_header_after
        shadowed_outcomes)

section \<open>Properties of the reports\<close>









end
